theory Spec2Isabelle
  imports Complex_Main "HOL-Library.AList" "HOL-Library.Sublist"
begin

section \<open>JavaScript strings and errors\<close>

text \<open>
  A JavaScript string is modelled as a \<^typ>\<open>string\<close>: a list of code units below 256
  (the Latin-1 range). All labels, keys and patterns of the program are ASCII.
  A thrown \<^verbatim>\<open>Error\<close> is a value \<open>JsError name message\<close>, and a function that can
  throw returns \<open>js_error + 'a\<close> with \<open>Inl\<close> for the exception.
\<close>

datatype js_error = JsError (err_name: string) (err_message: string)

definition Error :: "string \<Rightarrow> js_error" where
  "Error msg = JsError ''Error'' msg"

definition TypeError :: "string \<Rightarrow> js_error" where
  "TypeError msg = JsError ''TypeError'' msg"

definition lower_char :: "char \<Rightarrow> char" where
  "lower_char c =
     (let n = (of_char c :: nat)
      in if (65 \<le> n \<and> n \<le> 90) \<or> (192 \<le> n \<and> n \<le> 222 \<and> n \<noteq> 215)
         then char_of (n + 32) else c)"

definition toLowerCase :: "string \<Rightarrow> string" where
  "toLowerCase s = map lower_char s"

text \<open>White space of \<^verbatim>\<open>String.prototype.trim\<close> and of the regular expression class
  \<^verbatim>\<open>\s\<close>: TAB, LF, VT, FF, CR, SP and NBSP (the members below 256).\<close>

definition is_space :: "char \<Rightarrow> bool" where
  "is_space c = ((of_char c :: nat) \<in> {9, 10, 11, 12, 13, 32, 160})"

definition trim :: "string \<Rightarrow> string" where
  "trim s = rev (dropWhile is_space (rev (dropWhile is_space s)))"

text \<open>\<^verbatim>\<open>s.split(c)\<close> for a one-character separator: never empty, \<^verbatim>\<open>"".split(".")\<close>
  is \<^verbatim>\<open>[""]\<close>.\<close>

fun split_chr :: "char \<Rightarrow> string \<Rightarrow> string list" where
  "split_chr c [] = [[]]"
| "split_chr c (x # xs) =
     (if x = c then [] # split_chr c xs
      else (case split_chr c xs of
              [] \<Rightarrow> [[x]]
            | p # ps \<Rightarrow> (x # p) # ps))"

fun join :: "string \<Rightarrow> string list \<Rightarrow> string" where
  "join sep [] = []"
| "join sep [x] = x"
| "join sep (x # y # ys) = x @ sep @ join sep (y # ys)"

definition startsWith :: "string \<Rightarrow> string \<Rightarrow> bool" where
  "startsWith s p = (take (length p) s = p)"

text \<open>\<^verbatim>\<open>s.indexOf(c)\<close>: \<open>None\<close> stands for \<open>-1\<close>.\<close>

fun indexOf :: "string \<Rightarrow> char \<Rightarrow> nat option" where
  "indexOf [] c = None"
| "indexOf (x # xs) c =
     (if x = c then Some 0 else map_option Suc (indexOf xs c))"

definition js_includes :: "'a list \<Rightarrow> 'a \<Rightarrow> bool" where
  "js_includes xs x = (x \<in> set xs)"

section \<open>RegistryDetector\<close>

definition commonSecondLevel :: "string list" where
  "commonSecondLevel =
     [''co.uk'', ''org.uk'', ''me.uk'', ''ltd.uk'', ''plc.uk'',
      ''com.au'', ''net.au'', ''org.au'', ''edu.au'',
      ''co.nz'', ''net.nz'', ''org.nz'',
      ''co.za'', ''net.za'', ''org.za'',
      ''co.in'', ''net.in'', ''org.in'',
      ''com.br'', ''net.br'', ''org.br'',
      ''co.jp'', ''or.jp'', ''ne.jp'']"

text \<open>\<^verbatim>\<open>parts.slice(-2)\<close>: the last two elements (all of them when there are fewer).\<close>

definition slice_last2 :: "'a list \<Rightarrow> 'a list" where
  "slice_last2 xs = drop (length xs - 2) xs"

definition getTLD :: "string \<Rightarrow> js_error + string" where
  "getTLD domain =
     (if domain = [] then Inl (Error ''Invalid domain provided'')
      else
        let parts = split_chr CHR ''.'' (toLowerCase domain) in
        if length parts < 2 then Inl (Error ''Invalid domain format'')
        else
          let secondLevel = join ''.'' (slice_last2 parts) in
          if 3 \<le> length parts \<and> js_includes commonSecondLevel secondLevel
          then Inr secondLevel
          else Inr (last parts))"

definition whoisServers :: "(string \<times> string) list" where
  "whoisServers =
     [(''com'', ''whois.verisign-grs.com''),
      (''net'', ''whois.verisign-grs.com''),
      (''org'', ''whois.pir.org''),
      (''info'', ''whois.afilias.net''),
      (''biz'', ''whois.afilias.net''),
      (''name'', ''whois.nic.name''),
      (''pro'', ''whois.afilias.net''),
      (''uk'', ''whois.nic.uk''),
      (''co.uk'', ''whois.nic.uk''),
      (''org.uk'', ''whois.nic.uk''),
      (''me.uk'', ''whois.nic.uk''),
      (''ltd.uk'', ''whois.nic.uk''),
      (''plc.uk'', ''whois.nic.uk''),
      (''ca'', ''whois.cira.ca''),
      (''au'', ''whois.aunic.net''),
      (''com.au'', ''whois.aunic.net''),
      (''net.au'', ''whois.aunic.net''),
      (''org.au'', ''whois.aunic.net''),
      (''edu.au'', ''whois.aunic.net''),
      (''de'', ''whois.denic.de''),
      (''fr'', ''whois.nic.fr''),
      (''nl'', ''whois.domain-registry.nl''),
      (''be'', ''whois.dns.be''),
      (''ch'', ''whois.nic.ch''),
      (''at'', ''whois.nic.at''),
      (''it'', ''whois.nic.it''),
      (''es'', ''whois.nic.es''),
      (''se'', ''whois.iis.se''),
      (''no'', ''whois.norid.no''),
      (''dk'', ''whois.dk-hostmaster.dk''),
      (''fi'', ''whois.ficora.fi''),
      (''ie'', ''whois.weare.ie''),
      (''pl'', ''whois.dns.pl''),
      (''cz'', ''whois.nic.cz''),
      (''sk'', ''whois.sk-nic.sk''),
      (''hu'', ''whois.nic.hu''),
      (''ro'', ''whois.rotld.ro''),
      (''bg'', ''whois.register.bg''),
      (''hr'', ''whois.dns.hr''),
      (''si'', ''whois.register.si''),
      (''lv'', ''whois.nic.lv''),
      (''lt'', ''whois.domreg.lt''),
      (''ee'', ''whois.tld.ee''),
      (''xyz'', ''whois.nic.xyz''),
      (''top'', ''whois.nic.top''),
      (''site'', ''whois.centralnic.com''),
      (''online'', ''whois.centralnic.com''),
      (''tech'', ''whois.nic.tech''),
      (''store'', ''whois.nic.store''),
      (''io'', ''whois.nic.io''),
      (''ai'', ''whois.nic.ai''),
      (''co'', ''whois.nic.co''),
      (''me'', ''whois.nic.me''),
      (''tv'', ''whois.nic.tv''),
      (''cc'', ''whois.nic.cc'')]"

text \<open>\<^verbatim>\<open>whoisServers.get(tld) || 'whois.iana.org'\<close>: a missing key gives \<^verbatim>\<open>undefined\<close>,
  and an empty string would be falsy as well. The function reads the static table only.\<close>

definition getWhoisServer :: "string \<Rightarrow> js_error + string" where
  "getWhoisServer domain =
     (case getTLD domain of
        Inl e \<Rightarrow> Inl e
      | Inr tld \<Rightarrow>
          (case map_of whoisServers tld of
             None \<Rightarrow> Inr ''whois.iana.org''
           | Some server \<Rightarrow> if server = [] then Inr ''whois.iana.org'' else Inr server))"

definition rdapBootstrap :: "(string \<times> string) list" where
  "rdapBootstrap =
     [(''com'', ''https://rdap.verisign.com/com/v1/''),
      (''net'', ''https://rdap.verisign.com/net/v1/''),
      (''org'', ''https://rdap.pir.org/''),
      (''info'', ''https://rdap.afilias.info/rdap/''),
      (''biz'', ''https://rdap.afilias.info/rdap/''),
      (''name'', ''https://rdap.verisign.com/name/v1/''),
      (''pro'', ''https://rdap.afilias.info/rdap/''),
      (''uk'', ''https://rdap.nominet.uk/''),
      (''co.uk'', ''https://rdap.nominet.uk/''),
      (''org.uk'', ''https://rdap.nominet.uk/''),
      (''me.uk'', ''https://rdap.nominet.uk/''),
      (''ltd.uk'', ''https://rdap.nominet.uk/''),
      (''plc.uk'', ''https://rdap.nominet.uk/''),
      (''ca'', ''https://rdap.cira.ca/''),
      (''au'', ''https://rdap.auda.org.au/''),
      (''com.au'', ''https://rdap.auda.org.au/''),
      (''net.au'', ''https://rdap.auda.org.au/''),
      (''org.au'', ''https://rdap.auda.org.au/''),
      (''edu.au'', ''https://rdap.auda.org.au/''),
      (''de'', ''https://rdap.denic.de/''),
      (''fr'', ''https://rdap.nic.fr/''),
      (''nl'', ''https://rdap.sidn.nl/''),
      (''be'', ''https://rdap.dns.be/''),
      (''ch'', ''https://rdap.nic.ch/''),
      (''at'', ''https://rdap.nic.at/''),
      (''it'', ''https://rdap.nic.it/''),
      (''es'', ''https://rdap.nic.es/''),
      (''se'', ''https://rdap.iis.se/''),
      (''no'', ''https://rdap.norid.no/''),
      (''dk'', ''https://rdap.dk-hostmaster.dk/''),
      (''fi'', ''https://rdap.ficora.fi/''),
      (''ie'', ''https://rdap.weare.ie/''),
      (''pl'', ''https://rdap.dns.pl/''),
      (''cz'', ''https://rdap.nic.cz/''),
      (''sk'', ''https://rdap.sk-nic.sk/''),
      (''hu'', ''https://rdap.nic.hu/''),
      (''ro'', ''https://rdap.rotld.ro/''),
      (''bg'', ''https://rdap.register.bg/''),
      (''hr'', ''https://rdap.dns.hr/''),
      (''si'', ''https://rdap.register.si/''),
      (''lv'', ''https://rdap.nic.lv/''),
      (''lt'', ''https://rdap.domreg.lt/''),
      (''ee'', ''https://rdap.internet.ee/''),
      (''xyz'', ''https://rdap.centralnic.com/xyz/''),
      (''top'', ''https://rdap.nic.top/''),
      (''site'', ''https://rdap.centralnic.com/site/''),
      (''online'', ''https://rdap.centralnic.com/online/''),
      (''tech'', ''https://rdap.nic.tech/''),
      (''store'', ''https://rdap.nic.store/''),
      (''app'', ''https://rdap.charleston.com/''),
      (''dev'', ''https://rdap.charleston.com/''),
      (''io'', ''https://rdap.nic.io/''),
      (''ai'', ''https://rdap.nic.ai/''),
      (''co'', ''https://rdap.nic.co/''),
      (''me'', ''https://rdap.nic.me/''),
      (''tv'', ''https://rdap.nic.tv/''),
      (''cc'', ''https://rdap.nic.cc/'')]"

text \<open>
  \<open>getRdapUrl\<close> reads the static table first. On a miss it asks the IANA bootstrap
  service over the network: \<open>bootstrap tld\<close> stands for what that request and the search
  of its service list yield for the key, the first URL of the first service that lists
  it, and \<open>None\<close> when the request fails or nothing matches (\<^verbatim>\<open>null\<close> is returned).
  The write of the answer into the table is not modelled: a lookup resolves once.
\<close>

definition getRdapUrl :: "(string \<Rightarrow> string option) \<Rightarrow> string \<Rightarrow> js_error + string option" where
  "getRdapUrl bootstrap domain =
     (case getTLD domain of
        Inl e \<Rightarrow> Inl e
      | Inr tld \<Rightarrow>
          (case map_of rdapBootstrap tld of
             Some url \<Rightarrow> Inr (Some url)
           | None \<Rightarrow> Inr (bootstrap tld)))"

section \<open>JSON values\<close>

text \<open>
  The values the program receives from \<^verbatim>\<open>response.json()\<close> and the objects it builds.
  An object is an association list read with \<open>get\<close> (a missing key reads as
  \<^verbatim>\<open>undefined\<close>) and written with \<open>set_prop\<close>. Numbers are reals: the program only
  tests them for being zero.
\<close>

datatype json =
    JUndefined
  | JNull
  | JBool bool
  | JNum real
  | JStr string
  | JArr "json list"
  | JObj "(string \<times> json) list"

type_synonym obj = "(string \<times> json) list"

definition get :: "obj \<Rightarrow> string \<Rightarrow> json" where
  "get ob k = (case map_of ob k of None \<Rightarrow> JUndefined | Some v \<Rightarrow> v)"

definition set_prop :: "obj \<Rightarrow> string \<Rightarrow> json \<Rightarrow> obj" where
  "set_prop ob k v = AList.update k v ob"

fun truthy :: "json \<Rightarrow> bool" where
  "truthy JUndefined = False"
| "truthy JNull = False"
| "truthy (JBool b) = b"
| "truthy (JNum n) = (n \<noteq> 0)"
| "truthy (JStr s) = (s \<noteq> [])"
| "truthy (JArr xs) = True"
| "truthy (JObj kvs) = True"

text \<open>\<^verbatim>\<open>a || b\<close>.\<close>

definition js_or :: "json \<Rightarrow> json \<Rightarrow> json" where
  "js_or a b = (if truthy a then a else b)"

text \<open>\<^verbatim>\<open>x.k\<close> on a value: reading a property of \<^verbatim>\<open>null\<close> or \<^verbatim>\<open>undefined\<close> throws a
  \<^verbatim>\<open>TypeError\<close>; the keys read this way are never \<^verbatim>\<open>length\<close> or an index, so arrays,
  strings, numbers and booleans give \<^verbatim>\<open>undefined\<close>.\<close>

fun read_prop :: "json \<Rightarrow> string \<Rightarrow> js_error + json" where
  "read_prop JUndefined k = Inl (TypeError (''Cannot read properties of undefined (reading '' @ k @ '')''))"
| "read_prop JNull k = Inl (TypeError (''Cannot read properties of null (reading '' @ k @ '')''))"
| "read_prop (JObj kvs) k = Inr (get kvs k)"
| "read_prop v k = Inr JUndefined"

text \<open>\<^verbatim>\<open>x?.k\<close>.\<close>

fun opt_prop :: "json \<Rightarrow> string \<Rightarrow> json" where
  "opt_prop (JObj kvs) k = get kvs k"
| "opt_prop v k = JUndefined"

text \<open>\<^verbatim>\<open>x.length\<close> of a value that is not \<^verbatim>\<open>null\<close> or \<^verbatim>\<open>undefined\<close>, and the
  comparison \<^verbatim>\<open>x.length > n\<close>. An object has a length only as a member of its own; such a
  member is compared when it is a number or a boolean, and a string or array there
  (which JavaScript would convert to a number) is outside the model and compares false.\<close>

fun js_length :: "json \<Rightarrow> json" where
  "js_length (JArr xs) = JNum (real (length xs))"
| "js_length (JStr s) = JNum (real (length s))"
| "js_length (JObj kvs) = get kvs ''length''"
| "js_length v = JUndefined"

fun num_gt :: "json \<Rightarrow> nat \<Rightarrow> bool" where
  "num_gt (JNum x) n = (real n < x)"
| "num_gt (JBool b) n = (b \<and> n = 0)"
| "num_gt v n = False"

definition length_gt :: "json \<Rightarrow> nat \<Rightarrow> bool" where
  "length_gt v n = num_gt (js_length v) n"

text \<open>\<^verbatim>\<open>x && x.length > 0\<close>.\<close>

definition nonempty :: "json \<Rightarrow> bool" where
  "nonempty v = (truthy v \<and> length_gt v 0)"

text \<open>\<^verbatim>\<open>Object.keys(x).length > 0\<close> for a truthy \<open>x\<close>.\<close>

fun has_keys :: "json \<Rightarrow> bool" where
  "has_keys (JObj kvs) = (kvs \<noteq> [])"
| "has_keys (JArr xs) = (xs \<noteq> [])"
| "has_keys (JStr s) = (s \<noteq> [])"
| "has_keys v = False"

text \<open>\<^verbatim>\<open>if (v) ob.k = v\<close>.\<close>

definition set_if :: "obj \<Rightarrow> string \<Rightarrow> json \<Rightarrow> obj" where
  "set_if ob k v = (if truthy v then set_prop ob k v else ob)"

text \<open>A loop whose body can throw: the first exception ends it.\<close>

fun map_throw :: "('a \<Rightarrow> js_error + 'b) \<Rightarrow> 'a list \<Rightarrow> js_error + 'b list" where
  "map_throw f [] = Inr []"
| "map_throw f (x # xs) =
     (case f x of
        Inl e \<Rightarrow> Inl e
      | Inr y \<Rightarrow> (case map_throw f xs of Inl e \<Rightarrow> Inl e | Inr ys \<Rightarrow> Inr (y # ys)))"

text \<open>\<^verbatim>\<open>x.map(f)\<close>: only an array has the method.\<close>

fun js_map :: "(json \<Rightarrow> js_error + json) \<Rightarrow> json \<Rightarrow> js_error + json" where
  "js_map f (JArr xs) = (case map_throw f xs of Inl e \<Rightarrow> Inl e | Inr ys \<Rightarrow> Inr (JArr ys))"
| "js_map f JUndefined = Inl (TypeError ''Cannot read properties of undefined (reading map)'')"
| "js_map f JNull = Inl (TypeError ''Cannot read properties of null (reading map)'')"
| "js_map f v = Inl (TypeError ''map is not a function'')"

section \<open>RdapClient\<close>

text \<open>\<^verbatim>\<open>x[1]\<close> of a value that is not \<^verbatim>\<open>null\<close> or \<^verbatim>\<open>undefined\<close>.\<close>

fun js_index1 :: "json \<Rightarrow> json" where
  "js_index1 (JArr xs) = (if 1 < length xs then xs ! 1 else JUndefined)"
| "js_index1 (JStr s) = (if 1 < length s then JStr [s ! 1] else JUndefined)"
| "js_index1 (JObj kvs) = get kvs ''1''"
| "js_index1 v = JUndefined"

text \<open>\<^verbatim>\<open>if (!ob.k) ob.k = []; ob.k.push(v)\<close>.\<close>

definition push :: "obj \<Rightarrow> string \<Rightarrow> json \<Rightarrow> js_error + obj" where
  "push ob k v =
     (let ob1 = (if \<not> truthy (get ob k) then set_prop ob k (JArr []) else ob)
      in case get ob1 k of
           JArr xs \<Rightarrow> Inr (set_prop ob1 k (JArr (xs @ [v])))
         | _ \<Rightarrow> Inl (TypeError ''push is not a function''))"

text \<open>The body of the loop of \<open>parseVCard\<close>, on the contact built so far and one member
  of the vCard array. The member is destructured as
  \<^verbatim>\<open>[property, params, type, value]\<close>; \<^verbatim>\<open>property.toLowerCase()\<close> throws unless the
  property is a string.\<close>

definition vcardField :: "obj \<Rightarrow> json \<Rightarrow> js_error + obj" where
  "vcardField contact field =
     (case field of
        JArr (property # params # type # val # rest) \<Rightarrow>
          (case property of
             JStr p \<Rightarrow>
               (let key = toLowerCase p in
                if key = ''fn'' then Inr (set_prop contact ''name'' val)
                else if key = ''org'' then
                  Inr (set_prop contact ''organization''
                         (case val of
                            JArr [] \<Rightarrow> JUndefined
                          | JArr (v # vs) \<Rightarrow> v
                          | _ \<Rightarrow> val))
                else if key = ''email'' then push contact ''emails'' val
                else if key = ''tel'' then
                  push contact ''phones''
                    (JObj [(''type'', js_or (opt_prop params ''type'') (JStr ''voice'')),
                           (''value'', val)])
                else if key = ''adr'' then
                  (let contact1 = (if \<not> truthy (get contact ''addresses'')
                                   then set_prop contact ''addresses'' (JArr []) else contact)
                   in case val of
                        JArr vs \<Rightarrow>
                          if 7 \<le> length vs
                          then push contact1 ''addresses''
                                 (JObj [(''type'', js_or (opt_prop params ''type'') (JStr ''postal'')),
                                        (''poBox'', vs ! 0),
                                        (''extendedAddress'', vs ! 1),
                                        (''streetAddress'', vs ! 2),
                                        (''locality'', vs ! 3),
                                        (''region'', vs ! 4),
                                        (''postalCode'', vs ! 5),
                                        (''country'', vs ! 6)])
                          else Inr contact1
                      | _ \<Rightarrow> Inr contact1)
                else Inr contact)
           | JUndefined \<Rightarrow>
               Inl (TypeError ''Cannot read properties of undefined (reading toLowerCase)'')
           | JNull \<Rightarrow> Inl (TypeError ''Cannot read properties of null (reading toLowerCase)'')
           | _ \<Rightarrow> Inl (TypeError ''property.toLowerCase is not a function''))
      | _ \<Rightarrow> Inr contact)"

fun vcardLoop :: "obj \<Rightarrow> json list \<Rightarrow> js_error + obj" where
  "vcardLoop contact [] = Inr contact"
| "vcardLoop contact (field # fields) =
     (case vcardField contact field of
        Inl e \<Rightarrow> Inl e
      | Inr contact' \<Rightarrow> vcardLoop contact' fields)"

definition parseVCard :: "json \<Rightarrow> js_error + obj" where
  "parseVCard vcard =
     (case vcard of
        JArr fields \<Rightarrow> vcardLoop [] fields
      | _ \<Rightarrow> Inr [])"

definition parseEntity :: "json \<Rightarrow> js_error + json" where
  "parseEntity entity =
     (case read_prop entity ''handle'' of
        Inl e \<Rightarrow> Inl e
      | Inr h \<Rightarrow>
          (let parsed = [(''handle'', h),
                         (''roles'', js_or (opt_prop entity ''roles'') (JArr [])),
                         (''vcardArray'', opt_prop entity ''vcardArray''),
                         (''status'', opt_prop entity ''status''),
                         (''remarks'', opt_prop entity ''remarks''),
                         (''links'', opt_prop entity ''links''),
                         (''events'', opt_prop entity ''events''),
                         (''publicIds'', opt_prop entity ''publicIds'')]
           in if truthy (opt_prop entity ''vcardArray'')
                 \<and> length_gt (opt_prop entity ''vcardArray'') 1
              then (case parseVCard (js_index1 (opt_prop entity ''vcardArray'')) of
                      Inl e \<Rightarrow> Inl e
                    | Inr contact \<Rightarrow> Inr (JObj (set_prop parsed ''contact'' (JObj contact))))
              else Inr (JObj parsed)))"

definition parseEvent :: "json \<Rightarrow> js_error + json" where
  "parseEvent event =
     (case read_prop event ''eventAction'' of
        Inl e \<Rightarrow> Inl e
      | Inr a \<Rightarrow>
          Inr (JObj [(''eventAction'', a),
                     (''eventDate'', opt_prop event ''eventDate''),
                     (''eventActor'', opt_prop event ''eventActor'')]))"

definition parseNameserver :: "json \<Rightarrow> js_error + json" where
  "parseNameserver ns =
     (case read_prop ns ''ldhName'' of
        Inl e \<Rightarrow> Inl e
      | Inr n \<Rightarrow>
          Inr (JObj [(''ldhName'', n),
                     (''unicodeName'', opt_prop ns ''unicodeName''),
                     (''ipAddresses'', opt_prop ns ''ipAddresses''),
                     (''status'', opt_prop ns ''status'')]))"

text \<open>\<^verbatim>\<open>if (data.k) result.k = data.k.map(f)\<close>.\<close>

definition mapField :: "obj \<Rightarrow> json \<Rightarrow> string \<Rightarrow> (json \<Rightarrow> js_error + json) \<Rightarrow> js_error + obj" where
  "mapField result data k f =
     (if truthy (opt_prop data k)
      then map_sum id (set_prop result k) (js_map f (opt_prop data k))
      else Inr result)"

text \<open>\<^verbatim>\<open>data.events?.find(e => e.eventAction === action)\<close>: \<^verbatim>\<open>undefined\<close> when there are no
  events or none has the action; a falsy value other than \<^verbatim>\<open>null\<close> and \<^verbatim>\<open>undefined\<close>
  has no \<^verbatim>\<open>find\<close> method. (A truthy value that is not an array has thrown in the mapping
  of the events before.)\<close>

definition findEvent :: "json \<Rightarrow> string \<Rightarrow> js_error + json" where
  "findEvent events action =
     (case events of
        JUndefined \<Rightarrow> Inr JUndefined
      | JNull \<Rightarrow> Inr JUndefined
      | JArr es \<Rightarrow>
          (case find (\<lambda>e. opt_prop e ''eventAction'' = JStr action) es of
             None \<Rightarrow> Inr JUndefined
           | Some e \<Rightarrow> Inr e)
      | _ \<Rightarrow> Inl (TypeError ''data.events?.find is not a function''))"

text \<open>\<^verbatim>\<open>if (event) result.k = event.eventDate\<close>.\<close>

definition setDate :: "obj \<Rightarrow> string \<Rightarrow> json \<Rightarrow> obj" where
  "setDate result k event =
     (if truthy event then set_prop result k (opt_prop event ''eventDate'') else result)"

definition parseRdapResponse :: "json \<Rightarrow> string \<Rightarrow> js_error + obj" where
  "parseRdapResponse data domain =
     (case read_prop data ''rdapConformance'' of
        Inl e \<Rightarrow> Inl e
      | Inr conformance \<Rightarrow>
          (let result = [(''domain'', JStr domain),
                         (''found'', JBool True),
                         (''lookupStatus'', JStr ''found''),
                         (''rdapConformance'', js_or conformance (JArr [])),
                         (''objectClassName'', opt_prop data ''objectClassName''),
                         (''ldhName'', js_or (opt_prop data ''ldhName'') (JStr domain)),
                         (''unicodeName'', opt_prop data ''unicodeName''),
                         (''handle'', opt_prop data ''handle''),
                         (''status'', js_or (opt_prop data ''status'') (JArr [])),
                         (''events'', JArr []),
                         (''entities'', JArr []),
                         (''nameservers'', JArr []),
                         (''secureDNS'', opt_prop data ''secureDNS''),
                         (''remarks'', js_or (opt_prop data ''remarks'') (JArr [])),
                         (''links'', js_or (opt_prop data ''links'') (JArr [])),
                         (''port43'', opt_prop data ''port43''),
                         (''rawData'', data)]
           in case mapField result data ''events'' parseEvent of
                Inl e \<Rightarrow> Inl e
              | Inr result \<Rightarrow>
           (case mapField result data ''entities'' parseEntity of
                Inl e \<Rightarrow> Inl e
              | Inr result \<Rightarrow>
           (case mapField result data ''nameservers'' parseNameserver of
                Inl e \<Rightarrow> Inl e
              | Inr result \<Rightarrow>
           (case findEvent (opt_prop data ''events'') ''registration'' of
                Inl e \<Rightarrow> Inl e
              | Inr registrationEvent \<Rightarrow>
           (case findEvent (opt_prop data ''events'') ''expiration'' of
                Inl e \<Rightarrow> Inl e
              | Inr expirationEvent \<Rightarrow>
           (case findEvent (opt_prop data ''events'') ''last changed'' of
                Inl e \<Rightarrow> Inl e
              | Inr lastChangedEvent \<Rightarrow>
                  Inr (setDate
                         (setDate
                            (setDate result ''registrationDate'' registrationEvent)
                            ''expirationDate'' expirationEvent)
                         ''lastChangedDate'' lastChangedEvent))))))))"

text \<open>The domain format test of both clients,
  \<^verbatim>\<open>/^[a-z0-9]([a-z0-9-]{0,61}[a-z0-9])?(\.[a-z0-9]([a-z0-9-]{0,61}[a-z0-9])?)*$/i\<close>:
  one or more labels separated by dots, each of 1 to 63 letters, digits and hyphens that
  begins and ends with a letter or digit.\<close>

definition is_alnum :: "char \<Rightarrow> bool" where
  "is_alnum c =
     (let n = (of_char c :: nat)
      in (48 \<le> n \<and> n \<le> 57) \<or> (65 \<le> n \<and> n \<le> 90) \<or> (97 \<le> n \<and> n \<le> 122))"

definition valid_label :: "string \<Rightarrow> bool" where
  "valid_label l =
     (l \<noteq> [] \<and> length l \<le> 63 \<and> is_alnum (hd l) \<and> is_alnum (last l)
      \<and> list_all (\<lambda>c. is_alnum c \<or> c = CHR ''-'') l)"

definition valid_domain_format :: "string \<Rightarrow> bool" where
  "valid_domain_format s = list_all valid_label (split_chr CHR ''.'' s)"

text \<open>A number in a template literal: its decimal digits.\<close>

definition digit_char :: "nat \<Rightarrow> char" where
  "digit_char n = ''0123456789'' ! n"

function show_nat :: "nat \<Rightarrow> string" where
  "show_nat n =
     (if n < 10 then [digit_char n]
      else show_nat (n div 10) @ [digit_char (n mod 10)])"
  by pat_completeness auto
termination
  by (relation "measure id") auto

text \<open>
  The network: \<open>fetch url\<close> is the outcome of the request, a response or the exception
  the promise is rejected with (\<^verbatim>\<open>AbortSignal.timeout\<close> rejects with an exception named
  \<^verbatim>\<open>TimeoutError\<close>). A response carries its status, its status text and what
  \<^verbatim>\<open>response.json()\<close> yields, the parsed body or an exception.
\<close>

datatype http_response =
  Response (resp_status: nat) (resp_statusText: string) (resp_json: "js_error + json")

definition resp_ok :: "http_response \<Rightarrow> bool" where
  "resp_ok r = (200 \<le> resp_status r \<and> resp_status r \<le> 299)"

definition rdap_timeout :: nat where
  "rdap_timeout = 10000"

text \<open>The \<^verbatim>\<open>catch\<close> clause of \<open>lookupDomain\<close>.\<close>

definition catchTimeout :: "js_error + 'a \<Rightarrow> js_error + 'a" where
  "catchTimeout r =
     (case r of
        Inl error \<Rightarrow>
          if err_name error = ''TimeoutError''
          then Inl (Error (''RDAP query timed out after '' @ show_nat rdap_timeout @ ''ms''))
          else Inl error
      | Inr x \<Rightarrow> Inr x)"

definition rdap_lookupDomain ::
  "(string \<Rightarrow> string option) \<Rightarrow> (string \<Rightarrow> js_error + http_response) \<Rightarrow> string
     \<Rightarrow> js_error + obj" where
  "rdap_lookupDomain bootstrap fetch domain =
     (if domain = [] then Inl (Error ''Invalid domain provided'')
      else
        let cleanDomain = trim (toLowerCase domain) in
        if \<not> valid_domain_format cleanDomain then Inl (Error ''Invalid domain format'')
        else catchTimeout
          (case getRdapUrl bootstrap cleanDomain of
             Inl e \<Rightarrow> Inl e
           | Inr None \<Rightarrow> Inl (Error (''No RDAP server found for domain: '' @ cleanDomain))
           | Inr (Some rdapUrl) \<Rightarrow>
               if rdapUrl = []
               then Inl (Error (''No RDAP server found for domain: '' @ cleanDomain))
               else
                 (case fetch (rdapUrl @ ''domain/'' @ cleanDomain) of
                    Inl e \<Rightarrow> Inl e
                  | Inr response \<Rightarrow>
                      if \<not> resp_ok response
                      then
                        if resp_status response = 404
                        then Inr [(''domain'', JStr cleanDomain),
                                  (''found'', JBool False),
                                  (''status'', JStr ''not_found''),
                                  (''message'', JStr ''Domain not found in registry'')]
                        else Inl (Error (''RDAP query failed: ''
                                         @ show_nat (resp_status response) @ '' ''
                                         @ resp_statusText response))
                      else
                        (case resp_json response of
                           Inl e \<Rightarrow> Inl e
                         | Inr data \<Rightarrow> parseRdapResponse data cleanDomain))))"

section \<open>DomainLookupTool\<close>

text \<open>
  The two protocol clients are network calls: \<open>execute\<close> takes what
  \<^verbatim>\<open>rdapClient.lookupDomain\<close> and \<^verbatim>\<open>whoisClient.lookupDomain\<close> answer for a domain
  (a record, or the exception thrown) as the functions \<open>rdap\<close> and \<open>whois\<close>, and the
  timestamp \<^verbatim>\<open>new Date().toISOString()\<close> as \<open>now\<close>.
\<close>

datatype params =
  Params (param_domain: "string option") (prefer_whois: bool) (include_raw: bool)

definition formatContact :: "json \<Rightarrow> js_error + json" where
  "formatContact entity =
     (case read_prop entity ''handle'' of
        Inl e \<Rightarrow> Inl e
      | Inr h \<Rightarrow>
          Inr (JObj [(''handle'', h),
                     (''roles'', opt_prop entity ''roles''),
                     (''contact_info'', opt_prop entity ''contact'')]))"

definition formatRdapResult :: "obj \<Rightarrow> js_error + obj" where
  "formatRdapResult result =
     (let rdap = [(''conformance'', get result ''rdapConformance''),
                  (''object_class'', get result ''objectClassName''),
                  (''handle'', get result ''handle'')];
          rdap = (if nonempty (get result ''events'')
                  then set_prop rdap ''events'' (get result ''events'') else rdap);
          rdap = set_if rdap ''registration_date'' (get result ''registrationDate'');
          rdap = set_if rdap ''expiration_date'' (get result ''expirationDate'');
          rdap = set_if rdap ''last_changed_date'' (get result ''lastChangedDate'')
      in case (if nonempty (get result ''entities'')
               then map_sum id Some (js_map formatContact (get result ''entities''))
               else Inr None) of
           Inl e \<Rightarrow> Inl e
         | Inr contacts \<Rightarrow>
             (let rdap = (case contacts of
                            None \<Rightarrow> rdap
                          | Some cs \<Rightarrow> set_prop rdap ''contacts'' cs);
                  rdap = (if nonempty (get result ''nameservers'')
                          then set_prop rdap ''nameserver_details'' (get result ''nameservers'')
                          else rdap);
                  rdap = set_if rdap ''dnssec'' (get result ''secureDNS'');
                  rdap = (if nonempty (get result ''remarks'')
                          then set_prop rdap ''remarks'' (get result ''remarks'') else rdap);
                  rdap = (if nonempty (get result ''links'')
                          then set_prop rdap ''links'' (get result ''links'') else rdap);
                  rdap = set_if rdap ''whois_server'' (get result ''port43'')
              in Inr rdap))"

definition formatWhoisResult :: "obj \<Rightarrow> obj" where
  "formatWhoisResult result =
     (let whois = [];
          whois = set_if whois ''registrar'' (get result ''registrar'');
          whois = set_if whois ''registrant'' (get result ''registrant'');
          whois = set_if whois ''admin_contact'' (get result ''adminContact'');
          whois = set_if whois ''technical_contact'' (get result ''techContact'');
          whois = set_if whois ''billing_contact'' (get result ''billingContact'');
          whois = (if truthy (get result ''dates'') \<and> has_keys (get result ''dates'')
                   then set_prop whois ''dates'' (get result ''dates'') else whois);
          whois = set_if whois ''dnssec'' (get result ''dnssec'')
      in whois)"

definition formatResult :: "string \<Rightarrow> obj \<Rightarrow> bool \<Rightarrow> js_error + obj" where
  "formatResult now result includeRaw =
     (let formatted = [(''domain'', get result ''domain''),
                       (''found'', get result ''found''),
                       (''method'', get result ''method''),
                       (''timestamp'', JStr now)];
          formatted = (if truthy (get result ''fallback_used'')
                       then set_prop
                              (set_prop formatted ''fallback_used'' (get result ''fallback_used''))
                              ''primary_method_failed'' (get result ''primary_method_failed'')
                       else formatted);
          formatted = set_if formatted ''primary_method_error'' (get result ''primary_method_error'');
          formatted = set_if formatted ''fallback_error'' (get result ''fallback_error'')
      in if \<not> truthy (get result ''found'')
         then Inr (set_prop formatted ''message''
                     (js_or (get result ''message'')
                        (js_or (get result ''error'') (JStr ''Domain not found''))))
         else
           (let formatted = (if nonempty (get result ''status'')
                             then set_prop formatted ''status'' (get result ''status'')
                             else formatted);
                formatted = (if nonempty (get result ''nameservers'')
                             then set_prop formatted ''nameservers'' (get result ''nameservers'')
                             else formatted)
            in case (if get result ''method'' = JStr ''rdap''
                     then map_sum id (\<lambda>r. set_prop formatted ''rdap'' (JObj r))
                            (formatRdapResult result)
                     else Inr (set_prop formatted ''whois'' (JObj (formatWhoisResult result)))) of
                 Inl e \<Rightarrow> Inl e
               | Inr formatted \<Rightarrow>
                   Inr (if includeRaw \<and> truthy (get result ''rawData'')
                        then set_prop formatted ''raw_data'' (get result ''rawData'')
                        else formatted)))"

text \<open>One protocol attempt of \<open>execute\<close>: the client named by \<open>method\<close> is called and its
  record is tagged with the method.\<close>

definition lookupWith ::
  "(string \<Rightarrow> js_error + obj) \<Rightarrow> (string \<Rightarrow> js_error + obj) \<Rightarrow> string \<Rightarrow> string
     \<Rightarrow> js_error + obj" where
  "lookupWith rdap whois method d =
     (if method = ''rdap''
      then map_sum id (\<lambda>r. set_prop r ''method'' (JStr ''rdap'')) (rdap d)
      else map_sum id (\<lambda>r. set_prop r ''method'' (JStr ''whois'')) (whois d))"

definition execute ::
  "(string \<Rightarrow> js_error + obj) \<Rightarrow> (string \<Rightarrow> js_error + obj) \<Rightarrow> string \<Rightarrow> params
     \<Rightarrow> js_error + obj" where
  "execute rdap whois now ps =
     (case param_domain ps of
        None \<Rightarrow> Inl (Error ''Domain parameter is required'')
      | Some d \<Rightarrow>
          if d = [] then Inl (Error ''Domain parameter is required'')
          else
            let primaryMethod = (if prefer_whois ps then ''whois'' else ''rdap'');
                fallbackMethod = (if prefer_whois ps then ''rdap'' else ''whois'')
            in case lookupWith rdap whois primaryMethod d of
                 Inr result \<Rightarrow>
                   if \<not> truthy (get result ''found'') \<and> fallbackMethod \<noteq> []
                   then
                     (case lookupWith rdap whois fallbackMethod d of
                        Inr fallbackResult \<Rightarrow>
                          if truthy (get fallbackResult ''found'')
                          then formatResult now
                                 (set_prop
                                    (set_prop fallbackResult ''fallback_used'' (JBool True))
                                    ''primary_method_failed'' (JStr primaryMethod))
                                 (include_raw ps)
                          else formatResult now result (include_raw ps)
                      | Inl fallbackError \<Rightarrow>
                          formatResult now
                            (set_prop result ''fallback_error'' (JStr (err_message fallbackError)))
                            (include_raw ps))
                   else formatResult now result (include_raw ps)
               | Inl error \<Rightarrow>
                   (case lookupWith rdap whois fallbackMethod d of
                      Inr result \<Rightarrow>
                        formatResult now
                          (set_prop
                             (set_prop result ''fallback_used'' (JBool True))
                             ''primary_method_error'' (JStr (err_message error)))
                          (include_raw ps)
                    | Inl fallbackError \<Rightarrow>
                        Inl (Error
                          (''Both RDAP and WHOIS lookups failed. RDAP: ''
                           @ (if primaryMethod = ''rdap'' then err_message error
                              else err_message fallbackError)
                           @ '', WHOIS: ''
                           @ (if primaryMethod = ''whois'' then err_message error
                              else err_message fallbackError)))))"

text \<open>What \<open>formatRdapResult\<close> needs of a record so that mapping its entities does not
  throw: \<^verbatim>\<open>entities\<close> is an array without \<^verbatim>\<open>null\<close> members (as \<^verbatim>\<open>parseRdapResponse\<close>
  builds it), or it is empty or absent.\<close>

definition entities_ok :: "obj \<Rightarrow> bool" where
  "entities_ok r =
     (case get r ''entities'' of
        JArr es \<Rightarrow> list_all (\<lambda>e. e \<noteq> JNull \<and> e \<noteq> JUndefined) es
      | v \<Rightarrow> \<not> nonempty v)"

text \<open>A bootstrap service that knows no key (or cannot be reached).\<close>

definition no_bootstrap :: "string \<Rightarrow> string option" where
  "no_bootstrap tld = None"

text \<open>Auxiliary notions for the statements about \<open>parseVCard\<close>: the elements of an array
  value (none for any other value), a vCard member with at least four elements, and a
  contact whose list-valued members are absent or arrays.\<close>

fun arr_of :: "json \<Rightarrow> json list" where
  "arr_of (JArr xs) = xs"
| "arr_of v = []"

fun has_four :: "json \<Rightarrow> bool" where
  "has_four (JArr (a # b # c # d # r)) = True"
| "has_four v = False"

definition lists_ok :: "obj \<Rightarrow> bool" where
  "lists_ok c = list_all (\<lambda>k. get c k = JUndefined \<or> get c k = JArr (arr_of (get c k)))
                  [''emails'', ''phones'', ''addresses'']"

section \<open>Regular expressions\<close>

text \<open>
  The regular expressions of the program, as syntax trees matched by backtracking the way
  JavaScript matches them: alternatives and repetitions are tried in order, a greedy
  repetition takes as many characters as it can and gives them back one by one, a lazy
  one takes as few as it can. Repetition is over a character class, which is all the
  program uses. \<open>Lit\<close> compares characters without regard to the case of ASCII letters:
  every pattern of the program that contains a letter carries the flag \<^verbatim>\<open>i\<close>. \<open>Cap\<close> is
  the capture group 1, \<open>Eoi\<close> is \<^verbatim>\<open>$\<close> (no pattern has the flag \<^verbatim>\<open>m\<close>).
\<close>

datatype re =
    Lit string
  | Cls "char \<Rightarrow> bool"
  | Greedy nat "char \<Rightarrow> bool"
  | Lazy nat "char \<Rightarrow> bool"
  | Opt re
  | Cap re
  | Alt re re
  | Seq re re
  | Eoi

abbreviation LF :: char where
  "LF \<equiv> CHR 0x0A"

abbreviation CR :: char where
  "CR \<equiv> CHR 0x0D"

text \<open>The upper-case form of an ASCII letter: a lower-case letter (97 to 122) minus 32,
  which is the letter with its bit of value 32 cleared.\<close>

definition upper_ascii :: "char \<Rightarrow> char" where
  "upper_ascii c =
     (let n = (of_char c :: nat)
      in if 97 \<le> n \<and> n \<le> 122
         then (case c of Char b0 b1 b2 b3 b4 b5 b6 b7 \<Rightarrow> Char b0 b1 b2 b3 b4 False b6 b7)
         else c)"

definition is_digit :: "char \<Rightarrow> bool" where
  "is_digit c = (let n = (of_char c :: nat) in 48 \<le> n \<and> n \<le> 57)"

definition is_alpha :: "char \<Rightarrow> bool" where
  "is_alpha c =
     (let n = (of_char c :: nat) in (65 \<le> n \<and> n \<le> 90) \<or> (97 \<le> n \<and> n \<le> 122))"

text \<open>The class \<^verbatim>\<open>.\<close>: any character but a line terminator.\<close>

definition not_lt :: "char \<Rightarrow> bool" where
  "not_lt c = (c \<noteq> LF \<and> c \<noteq> CR)"

text \<open>The class \<^verbatim>\<open>[\s\S]\<close>.\<close>

definition any_char :: "char \<Rightarrow> bool" where
  "any_char c = True"

text \<open>The class \<^verbatim>\<open>[^\s\r\n]\<close>.\<close>

definition not_space :: "char \<Rightarrow> bool" where
  "not_space c = (\<not> is_space c)"

text \<open>\<open>greedy p n s k\<close>: at least \<open>n\<close> characters of class \<open>p\<close> at the start of \<open>s\<close>, the
  longest run first, then the continuation \<open>k\<close> on the rest; \<open>lazy\<close> tries the shortest
  run first.\<close>

fun greedy :: "(char \<Rightarrow> bool) \<Rightarrow> nat \<Rightarrow> string \<Rightarrow> (string \<Rightarrow> 'a option) \<Rightarrow> 'a option" where
  "greedy p n [] k = (if n = 0 then k [] else None)"
| "greedy p n (x # xs) k =
     (if p x
      then (case greedy p (n - 1) xs k of
              Some r \<Rightarrow> Some r
            | None \<Rightarrow> if n = 0 then k (x # xs) else None)
      else if n = 0 then k (x # xs) else None)"

fun lazy :: "(char \<Rightarrow> bool) \<Rightarrow> nat \<Rightarrow> string \<Rightarrow> (string \<Rightarrow> 'a option) \<Rightarrow> 'a option" where
  "lazy p n [] k = (if n = 0 then k [] else None)"
| "lazy p n (x # xs) k =
     (if n = 0
      then (case k (x # xs) of
              Some r \<Rightarrow> Some r
            | None \<Rightarrow> if p x then lazy p 0 xs k else None)
      else if p x then lazy p (n - 1) xs k else None)"

text \<open>The matcher in continuation-passing style. A state is the rest of the input and
  the text captured by group 1 so far.\<close>

primrec rmatch :: "re \<Rightarrow> (string \<times> string option \<Rightarrow> 'a option) \<Rightarrow> string \<times> string option \<Rightarrow> 'a option" where
  "rmatch (Lit l) k =
     (\<lambda>(s, c). if map upper_ascii (take (length l) s) = map upper_ascii l
               then k (drop (length l) s, c) else None)"
| "rmatch (Cls p) k =
     (\<lambda>(s, c). case s of [] \<Rightarrow> None | x # xs \<Rightarrow> if p x then k (xs, c) else None)"
| "rmatch (Greedy n p) k = (\<lambda>(s, c). greedy p n s (\<lambda>s'. k (s', c)))"
| "rmatch (Lazy n p) k = (\<lambda>(s, c). lazy p n s (\<lambda>s'. k (s', c)))"
| "rmatch (Opt r) k =
     (\<lambda>st. case rmatch r k st of Some x \<Rightarrow> Some x | None \<Rightarrow> k st)"
| "rmatch (Cap r) k =
     (\<lambda>(s, c). rmatch r (\<lambda>(s', c'). k (s', Some (take (length s - length s') s))) (s, c))"
| "rmatch (Alt r1 r2) k =
     (\<lambda>st. case rmatch r1 k st of Some x \<Rightarrow> Some x | None \<Rightarrow> rmatch r2 k st)"
| "rmatch (Seq r1 r2) k = rmatch r1 (rmatch r2 k)"
| "rmatch Eoi k = (\<lambda>(s, c). if s = [] then k (s, c) else None)"

text \<open>A match at the start of \<open>s\<close>: the text of group 1 (empty when the pattern has no
  group).\<close>

definition match_at :: "re \<Rightarrow> string \<Rightarrow> string option" where
  "match_at r s =
     rmatch r (\<lambda>(s', c). Some (case c of None \<Rightarrow> [] | Some x \<Rightarrow> x)) (s, None)"

text \<open>\<^verbatim>\<open>s.match(r)\<close> for a pattern without the flag \<^verbatim>\<open>g\<close>: the match at the leftmost
  position that has one, as its \<^verbatim>\<open>match[1]\<close>; \<open>None\<close> is \<^verbatim>\<open>null\<close>.\<close>

fun js_match :: "re \<Rightarrow> string \<Rightarrow> string option" where
  "js_match r [] = match_at r []"
| "js_match r (x # xs) =
     (case match_at r (x # xs) of Some m \<Rightarrow> Some m | None \<Rightarrow> js_match r xs)"

fun seqs :: "re list \<Rightarrow> re" where
  "seqs [] = Lit []"
| "seqs [r] = r"
| "seqs (r # rs) = Seq r (seqs rs)"

text \<open>The loops \<^verbatim>\<open>for (const pattern of patterns) { const match = rawData.match(pattern);
  if (match) { ... match[1] ...; break; } }\<close>: the first pattern of the list that matches
  decides, and the patterns after it are not tried.\<close>

fun firstMatch :: "re list \<Rightarrow> string \<Rightarrow> string option" where
  "firstMatch [] raw = None"
| "firstMatch (p # ps) raw =
     (case js_match p raw of Some m \<Rightarrow> Some m | None \<Rightarrow> firstMatch ps raw)"

section \<open>Dates\<close>

text \<open>
  \<^verbatim>\<open>new Date(s)\<close> followed by \<^verbatim>\<open>toISOString()\<close>: \<open>Some\<close> of the ISO string when the date is
  valid, \<open>None\<close> when it is an invalid date (\<^verbatim>\<open>isNaN(date.getTime())\<close>). ECMAScript
  fixes the date-only form \<^verbatim>\<open>YYYY-MM-DD\<close>: it is midnight UTC of that day, and a month
  outside 1-12 or a day outside 1-31 makes the date invalid. What any other string
  parses to, and a day 29-31 that the month does not have, is left to the engine: the
  parameter \<open>impl\<close>.
\<close>

definition digit_val :: "char \<Rightarrow> nat" where
  "digit_val c = of_char c - 48"

definition num_of :: "string \<Rightarrow> nat" where
  "num_of s = foldl (\<lambda>n c. 10 * n + digit_val c) 0 s"

definition isoDateOnly :: "string \<Rightarrow> (nat \<times> nat \<times> nat) option" where
  "isoDateOnly s =
     (if length s = 10
         \<and> list_all is_digit (take 4 s) \<and> s ! 4 = CHR ''-''
         \<and> list_all is_digit (take 2 (drop 5 s)) \<and> s ! 7 = CHR ''-''
         \<and> list_all is_digit (drop 8 s)
      then Some (num_of (take 4 s), num_of (take 2 (drop 5 s)), num_of (drop 8 s))
      else None)"

definition leap_year :: "nat \<Rightarrow> bool" where
  "leap_year y = (y mod 4 = 0 \<and> (y mod 100 \<noteq> 0 \<or> y mod 400 = 0))"

definition days_in_month :: "nat \<Rightarrow> nat \<Rightarrow> nat" where
  "days_in_month y m =
     (if m = 2 then (if leap_year y then 29 else 28)
      else if m = 4 \<or> m = 6 \<or> m = 9 \<or> m = 11 then 30
      else 31)"

definition dateToISOString :: "(string \<Rightarrow> string option) \<Rightarrow> string \<Rightarrow> string option" where
  "dateToISOString impl s =
     (case isoDateOnly s of
        None \<Rightarrow> impl s
      | Some (y, m, d) \<Rightarrow>
          if m < 1 \<or> 12 < m \<or> d < 1 \<or> 31 < d then None
          else if d \<le> days_in_month y m then Some (s @ ''T00:00:00.000Z'')
          else impl s)"

text \<open>An engine that accepts nothing beyond what ECMAScript fixes.\<close>

definition no_fallback :: "string \<Rightarrow> string option" where
  "no_fallback s = None"

section \<open>WhoisClient\<close>

text \<open>The four formats of \<open>parseDate\<close>, \<^verbatim>\<open>/(\d{4})-(\d{2})-(\d{2})/\<close>,
  \<^verbatim>\<open>/(\d{2})-(\d{2})-(\d{4})/\<close>, \<^verbatim>\<open>/(\d{4})\.(\d{2})\.(\d{2})/\<close> and
  \<^verbatim>\<open>/(\d{2})\.(\d{2})\.(\d{4})/\<close>. Their groups are never read, only whether they
  match, so the groups are left out.\<close>

definition digits :: "nat \<Rightarrow> re" where
  "digits n = seqs (replicate n (Cls is_digit))"

definition dateFormats :: "re list" where
  "dateFormats =
     [seqs [digits 4, Lit ''-'', digits 2, Lit ''-'', digits 2],
      seqs [digits 2, Lit ''-'', digits 2, Lit ''-'', digits 4],
      seqs [digits 4, Lit ''.'', digits 2, Lit ''.'', digits 2],
      seqs [digits 2, Lit ''.'', digits 2, Lit ''.'', digits 4]]"

text \<open>The loop over the formats: at a format that matches, the whole string is given to
  \<^verbatim>\<open>new Date\<close>, and a valid date is returned as its ISO string; otherwise the loop goes
  on, and after it the string is returned as it is.\<close>

fun parseDateLoop :: "(string \<Rightarrow> string option) \<Rightarrow> string \<Rightarrow> re list \<Rightarrow> string" where
  "parseDateLoop impl dateString [] = dateString"
| "parseDateLoop impl dateString (format # formats) =
     (case js_match format dateString of
        None \<Rightarrow> parseDateLoop impl dateString formats
      | Some m \<Rightarrow>
          (case dateToISOString impl dateString of
             Some isoString \<Rightarrow> isoString
           | None \<Rightarrow> parseDateLoop impl dateString formats))"

text \<open>\<open>None\<close> is \<^verbatim>\<open>null\<close>.\<close>

definition parseDate :: "(string \<Rightarrow> string option) \<Rightarrow> string \<Rightarrow> string option" where
  "parseDate impl dateString =
     (if dateString = [] then None else Some (parseDateLoop impl dateString dateFormats))"

text \<open>
  The record the WHOIS client builds. A key that the JavaScript object does not have,
  and \<^verbatim>\<open>null\<close>, are \<open>None\<close>. The values that come from the backend's structured payload
  are taken to be of the types the client's own parser produces: strings, lists of
  strings, and contacts with a name, an organization and an email.
\<close>

record whois_contact =
  name :: "string option"
  organization :: "string option"
  email :: "string option"

record whois_dates =
  created :: "string option"
  expires :: "string option"
  updated :: "string option"

record additional_info =
  registrarUrl :: "string option"
  dataValidation :: "string option"

record whois_record =
  domain :: string
  found :: bool
  source :: string
  rawData :: "string option"
  registrar :: "string option"
  registrant :: "whois_contact option"
  adminContact :: "whois_contact option"
  techContact :: "whois_contact option"
  billingContact :: "whois_contact option"
  nameservers :: "string list"
  status :: "string list"
  dates :: whois_dates
  dnssec :: "string option"
  whoisServer :: "string option"
  additionalInfo :: "additional_info option"
  error :: "string option"

definition emptyContact :: whois_contact where
  "emptyContact = \<lparr>name = None, organization = None, email = None\<rparr>"

definition noDates :: whois_dates where
  "noDates = \<lparr>created = None, expires = None, updated = None\<rparr>"

text \<open>\<^verbatim>\<open>!v\<close> for a string or \<^verbatim>\<open>null\<close>.\<close>

definition falsy :: "string option \<Rightarrow> bool" where
  "falsy v = (v = None \<or> v = Some [])"

text \<open>\<^verbatim>\<open>if (!result.c) result.c = {}\<close>, as the contact to write into.\<close>

definition ensureContact :: "whois_contact option \<Rightarrow> whois_contact" where
  "ensureContact c = (case c of None \<Rightarrow> emptyContact | Some x \<Rightarrow> x)"

text \<open>\<^verbatim>\<open>if (result.c && Object.keys(result.c).length === 0) result.c = null\<close>.\<close>

definition cleanContact :: "whois_contact option \<Rightarrow> whois_contact option" where
  "cleanContact c =
     (case c of None \<Rightarrow> None | Some x \<Rightarrow> if x = emptyContact then None else Some x)"

text \<open>The record of the empty payload, and the record the parser starts from.\<close>

definition notFoundRecord :: "string \<Rightarrow> whois_record" where
  "notFoundRecord dn =
     \<lparr>domain = dn, found = False, source = ''whois'', rawData = None,
      registrar = None, registrant = None, adminContact = None, techContact = None,
      billingContact = None, nameservers = [], status = [], dates = noDates,
      dnssec = None, whoisServer = None, additionalInfo = None,
      error = Some ''No WHOIS data available''\<rparr>"

definition initialRecord :: "string \<Rightarrow> string \<Rightarrow> whois_record" where
  "initialRecord whoisText dn =
     \<lparr>domain = dn, found = True, source = ''whois'', rawData = Some whoisText,
      registrar = None, registrant = None, adminContact = None, techContact = None,
      billingContact = None, nameservers = [], status = [], dates = noDates,
      dnssec = None, whoisServer = None, additionalInfo = None, error = None\<rparr>"

text \<open>The body of the loop over the lines of the text.\<close>

definition parseLine :: "(string \<Rightarrow> string option) \<Rightarrow> whois_record \<Rightarrow> string \<Rightarrow> whois_record" where
  "parseLine impl result rawLine =
     (let line = trim rawLine in
      if line = [] \<or> startsWith line ''%'' \<or> startsWith line ''>>'' then result
      else
        (case indexOf line CHR '':'' of
           None \<Rightarrow> result
         | Some colonIndex \<Rightarrow>
             (let key = toLowerCase (trim (take colonIndex line));
                  val = trim (drop (colonIndex + 1) line)
              in if val = [] then result
                 else if key = ''registrar'' \<or> key = ''sponsoring registrar''
                   then result\<lparr>registrar := Some val\<rparr>
                 else if key = ''registrant'' \<or> key = ''registrant organization''
                         \<or> key = ''registrant org''
                   then result\<lparr>registrant :=
                          Some ((ensureContact (registrant result))\<lparr>organization := Some val\<rparr>)\<rparr>
                 else if key = ''registrant name''
                   then result\<lparr>registrant :=
                          Some ((ensureContact (registrant result))\<lparr>name := Some val\<rparr>)\<rparr>
                 else if key = ''registrant email''
                   then result\<lparr>registrant :=
                          Some ((ensureContact (registrant result))\<lparr>email := Some val\<rparr>)\<rparr>
                 else if key = ''admin email'' \<or> key = ''administrative contact email''
                   then result\<lparr>adminContact :=
                          Some ((ensureContact (adminContact result))\<lparr>email := Some val\<rparr>)\<rparr>
                 else if key = ''tech email'' \<or> key = ''technical contact email''
                   then result\<lparr>techContact :=
                          Some ((ensureContact (techContact result))\<lparr>email := Some val\<rparr>)\<rparr>
                 else if key = ''name server'' \<or> key = ''nameserver'' \<or> key = ''nserver''
                   then (if js_includes (nameservers result) (toLowerCase val) then result
                         else result\<lparr>nameservers := nameservers result @ [toLowerCase val]\<rparr>)
                 else if key = ''domain status'' \<or> key = ''status''
                   then result\<lparr>status := status result @ [val]\<rparr>
                 else if key = ''creation date'' \<or> key = ''created'' \<or> key = ''registered''
                   then result\<lparr>dates := (dates result)\<lparr>created := parseDate impl val\<rparr>\<rparr>
                 else if key = ''expiry date'' \<or> key = ''expires'' \<or> key = ''expiration date''
                   then result\<lparr>dates := (dates result)\<lparr>expires := parseDate impl val\<rparr>\<rparr>
                 else if key = ''updated date'' \<or> key = ''last modified'' \<or> key = ''changed''
                   then result\<lparr>dates := (dates result)\<lparr>updated := parseDate impl val\<rparr>\<rparr>
                 else if key = ''dnssec''
                   then result\<lparr>dnssec := Some (toLowerCase val)\<rparr>
                 else result)))"

definition parseWhoisResponse :: "(string \<Rightarrow> string option) \<Rightarrow> string \<Rightarrow> string \<Rightarrow> whois_record" where
  "parseWhoisResponse impl whoisText dn =
     (if whoisText = [] then notFoundRecord dn
      else
        let result = foldl (parseLine impl) (initialRecord whoisText dn) (split_chr LF whoisText)
        in result\<lparr>registrant := cleanContact (registrant result),
                  adminContact := cleanContact (adminContact result),
                  techContact := cleanContact (techContact result)\<rparr>)"



subsection \<open>Enrichment from the raw text\<close>

text \<open>The pattern \<^verbatim>\<open>/<label>\s*(.+)/i\<close>.\<close>

definition labelled :: "string \<Rightarrow> re" where
  "labelled l = seqs [Lit l, Greedy 0 is_space, Cap (Greedy 1 not_lt)]"

definition createdPatterns :: "re list" where
  "createdPatterns =
     [labelled ''Registered on:'', labelled ''Creation date:'', labelled ''Created:'',
      labelled ''Registration date:'']"

definition expiresPatterns :: "re list" where
  "expiresPatterns =
     [labelled ''Expiry date:'', labelled ''Expires:'', labelled ''Expiration date:'',
      labelled ''Registry Expiry Date:'']"

definition updatedPatterns :: "re list" where
  "updatedPatterns =
     [labelled ''Last updated:'', labelled ''Last modified:'', labelled ''Updated date:'',
      labelled ''Last Changed:'']"

text \<open>The end of a block, \<^verbatim>\<open>(?:\n\s*\n|\n\s*WHOIS|$)\<close>, and the two nameserver patterns
  \<^verbatim>\<open>/Name servers?:\s*([\s\S]*?)(?:\n\s*\n|\n\s*WHOIS|$)/i\<close> and
  \<^verbatim>\<open>/DNS:\s*([\s\S]*?)(?:\n\s*\n|\n\s*WHOIS|$)/i\<close>.\<close>

definition blockEnd :: re where
  "blockEnd =
     Alt (seqs [Lit [LF], Greedy 0 is_space, Lit [LF]])
       (Alt (seqs [Lit [LF], Greedy 0 is_space, Lit ''WHOIS'']) Eoi)"

definition nameserverPatterns :: "re list" where
  "nameserverPatterns =
     [seqs [Lit ''Name server'', Opt (Lit ''s''), Lit '':'', Greedy 0 is_space,
            Cap (Lazy 0 any_char), blockEnd],
      seqs [Lit ''DNS:'', Greedy 0 is_space, Cap (Lazy 0 any_char), blockEnd]]"

definition statusPatterns :: "re list" where
  "statusPatterns =
     [labelled ''Registration status:'', labelled ''Status:'', labelled ''Domain status:'']"

text \<open>\<^verbatim>\<open>/Registrar:\s*(.+?)(?:\[|URL:|$)/i\<close> and \<^verbatim>\<open>/Sponsoring Registrar:\s*(.+)/i\<close>.\<close>

definition registrarPatterns :: "re list" where
  "registrarPatterns =
     [seqs [Lit ''Registrar:'', Greedy 0 is_space, Cap (Lazy 1 not_lt),
            Alt (Lit ''['') (Alt (Lit ''URL:'') Eoi)],
      labelled ''Sponsoring Registrar:'']"

text \<open>The registrant patterns, each with whether its source contains
  \<^verbatim>\<open>Organization\<close> (\<^verbatim>\<open>pattern.source.includes('Organization')\<close>).\<close>

definition registrantPatterns :: "(bool \<times> re) list" where
  "registrantPatterns =
     [(False, labelled ''Registrant:''),
      (True, labelled ''Registrant Organization:''),
      (False, labelled ''Registrant Name:'')]"

definition whoisServerPattern :: re where
  "whoisServerPattern = labelled ''Whois Server:''"

text \<open>\<^verbatim>\<open>/URL:\s*(https?:\/\/[^\s\r\n]+)/i\<close> and
  \<^verbatim>\<open>/Data validation:\s*([\s\S]*?)(?:\n\s*\n|\n\s*[A-Z])/i\<close>.\<close>

definition urlPattern :: re where
  "urlPattern =
     seqs [Lit ''URL:'', Greedy 0 is_space,
           Cap (seqs [Lit ''http'', Opt (Lit ''s''), Lit ''://'', Greedy 1 not_space])]"

definition validationPattern :: re where
  "validationPattern =
     seqs [Lit ''Data validation:'', Greedy 0 is_space, Cap (Lazy 0 any_char),
           Alt (seqs [Lit [LF], Greedy 0 is_space, Lit [LF]])
               (seqs [Lit [LF], Greedy 0 is_space, Cls is_alpha])]"

text \<open>A date is written only when it is empty: the trimmed group of the first pattern
  that matches.\<close>

definition enrichDate :: "string option \<Rightarrow> re list \<Rightarrow> string \<Rightarrow> string option" where
  "enrichDate cur patterns raw =
     (if falsy cur
      then (case firstMatch patterns raw of None \<Rightarrow> cur | Some m \<Rightarrow> Some (trim m))
      else cur)"

definition enrichDates :: "whois_record \<Rightarrow> string \<Rightarrow> whois_record" where
  "enrichDates result raw =
     result\<lparr>dates :=
       \<lparr>created = enrichDate (created (dates result)) createdPatterns raw,
        expires = enrichDate (expires (dates result)) expiresPatterns raw,
        updated = enrichDate (updated (dates result)) updatedPatterns raw\<rparr>\<rparr>"

text \<open>\<^verbatim>\<open>line.split(/\s+/)[0]\<close>.\<close>

definition firstToken :: "string \<Rightarrow> string" where
  "firstToken line = takeWhile (\<lambda>c. \<not> is_space c) line"

text \<open>The hostnames of a matched block, before and after \<^verbatim>\<open>.slice(0, 10)\<close>.\<close>

definition nsCandidates :: "string \<Rightarrow> string list" where
  "nsCandidates block =
     filter (\<lambda>ns. ns \<noteq> [] \<and> CHR ''.'' \<in> set ns \<and> 3 < length ns)
       (map firstToken
          (filter (\<lambda>line. line \<noteq> [] \<and> \<not> startsWith line ''-'' \<and> \<not> startsWith line ''This'')
             (map trim (split_chr LF block))))"

definition extractNameservers :: "string \<Rightarrow> string list" where
  "extractNameservers block = take 10 (nsCandidates block)"

text \<open>The loop over the nameserver patterns ends at the first pattern whose block gives at
  least one hostname.\<close>

fun nameserverLoop :: "re list \<Rightarrow> string \<Rightarrow> string list option" where
  "nameserverLoop [] raw = None"
| "nameserverLoop (p # ps) raw =
     (case js_match p raw of
        None \<Rightarrow> nameserverLoop ps raw
      | Some block \<Rightarrow>
          if extractNameservers block \<noteq> [] then Some (extractNameservers block)
          else nameserverLoop ps raw)"

definition enrichNameservers :: "whois_record \<Rightarrow> string \<Rightarrow> whois_record" where
  "enrichNameservers result raw =
     (if nameservers result = []
      then (case nameserverLoop nameserverPatterns raw of
              None \<Rightarrow> result
            | Some ns \<Rightarrow> result\<lparr>nameservers := ns\<rparr>)
      else result)"

definition enrichStatus :: "whois_record \<Rightarrow> string \<Rightarrow> whois_record" where
  "enrichStatus result raw =
     (case firstMatch statusPatterns raw of
        None \<Rightarrow> result
      | Some m \<Rightarrow>
          if js_includes (status result) (trim m) then result
          else result\<lparr>status := status result @ [trim m]\<rparr>)"

definition enrichRegistrar :: "whois_record \<Rightarrow> string \<Rightarrow> whois_record" where
  "enrichRegistrar result raw =
     (if falsy (registrar result)
      then (case firstMatch registrarPatterns raw of
              None \<Rightarrow> result
            | Some m \<Rightarrow> result\<lparr>registrar := Some (trim m)\<rparr>)
      else result)"

fun registrantLoop :: "(bool \<times> re) list \<Rightarrow> string \<Rightarrow> (bool \<times> string) option" where
  "registrantLoop [] raw = None"
| "registrantLoop ((isOrganization, p) # ps) raw =
     (case js_match p raw of
        None \<Rightarrow> registrantLoop ps raw
      | Some m \<Rightarrow> Some (isOrganization, m))"

definition enrichRegistrant :: "whois_record \<Rightarrow> string \<Rightarrow> whois_record" where
  "enrichRegistrant result raw =
     (case registrantLoop registrantPatterns raw of
        None \<Rightarrow> result
      | Some (isOrganization, m) \<Rightarrow>
          (let c = ensureContact (registrant result)
           in if falsy (name c) \<and> falsy (organization c)
              then (if isOrganization
                    then result\<lparr>registrant := Some (c\<lparr>organization := Some (trim m)\<rparr>)\<rparr>
                    else result\<lparr>registrant := Some (c\<lparr>name := Some (trim m)\<rparr>)\<rparr>)
              else result\<lparr>registrant := Some c\<rparr>))"

definition enrichWhoisServer :: "whois_record \<Rightarrow> string \<Rightarrow> whois_record" where
  "enrichWhoisServer result raw =
     (if falsy (whoisServer result)
      then (case js_match whoisServerPattern raw of
              None \<Rightarrow> result
            | Some m \<Rightarrow> result\<lparr>whoisServer := Some (trim m)\<rparr>)
      else result)"

text \<open>\<^verbatim>\<open>result.additionalInfo = {}\<close>, the two optional members, and the deletion of the
  object when it has no key.\<close>

definition enrichAdditionalInfo :: "whois_record \<Rightarrow> string \<Rightarrow> whois_record" where
  "enrichAdditionalInfo result raw =
     (let info = \<lparr>registrarUrl = js_match urlPattern raw,
                  dataValidation = map_option trim (js_match validationPattern raw)\<rparr>
      in if registrarUrl info = None \<and> dataValidation info = None
         then result\<lparr>additionalInfo := None\<rparr>
         else result\<lparr>additionalInfo := Some info\<rparr>)"

text \<open>\<open>enrichFromRawData\<close>: the blocks of the function in their order.\<close>

definition enrichFromRawData :: "whois_record \<Rightarrow> string \<Rightarrow> whois_record" where
  "enrichFromRawData result raw =
     enrichAdditionalInfo
       (enrichWhoisServer
          (enrichRegistrant
             (enrichRegistrar
                (enrichStatus
                   (enrichNameservers
                      (enrichDates result raw) raw) raw) raw) raw) raw) raw"

text \<open>The backend's structured payload \<^verbatim>\<open>parsedData\<close>, and \<open>formatApiResponse\<close>.
  \<open>pd_status\<close> is \<open>None\<close> when the payload's status is not an array.\<close>

record parsed_data =
  pd_registrar :: "string option"
  pd_registrant :: "whois_contact option"
  pd_nameservers :: "string list option"
  pd_status :: "string list option"
  pd_creationDate :: "string option"
  pd_expirationDate :: "string option"
  pd_lastModified :: "string option"
  pd_dnssec :: "string option"
  pd_whoisServer :: "string option"

text \<open>\<^verbatim>\<open>v || null\<close>.\<close>

definition orNull :: "string option \<Rightarrow> string option" where
  "orNull v = (if falsy v then None else v)"

definition formatApiResponse :: "parsed_data \<Rightarrow> string option \<Rightarrow> string \<Rightarrow> whois_record" where
  "formatApiResponse pd raw dn =
     (let result =
        \<lparr>domain = dn, found = True, source = ''whois'', rawData = orNull raw,
         registrar = orNull (pd_registrar pd), registrant = pd_registrant pd,
         adminContact = None, techContact = None, billingContact = None,
         nameservers = (case pd_nameservers pd of None \<Rightarrow> [] | Some ns \<Rightarrow> ns),
         status = (case pd_status pd of None \<Rightarrow> [] | Some st \<Rightarrow> st),
         dates = \<lparr>created = orNull (pd_creationDate pd),
                  expires = orNull (pd_expirationDate pd),
                  updated = orNull (pd_lastModified pd)\<rparr>,
         dnssec = orNull (pd_dnssec pd), whoisServer = orNull (pd_whoisServer pd),
         additionalInfo = None, error = None\<rparr>
      in case raw of
           None \<Rightarrow> result
         | Some text \<Rightarrow> if text = [] then result else enrichFromRawData result text)"

section \<open>Properties of the registry resolution\<close>

lemma split_chr_not_Nil: "split_chr c s \<noteq> []"
  by (induction s) (auto split: list.splits)

lemma split_chr_no_sep: "p \<in> set (split_chr c s) \<Longrightarrow> c \<notin> set p"
proof (induction s arbitrary: p)
  case Nil
  then show ?case by simp
next
  case (Cons x xs)
  show ?case
  proof (cases "x = c")
    case True
    with Cons show ?thesis by auto
  next
    case False
    obtain q qs where q: "split_chr c xs = q # qs"
      using split_chr_not_Nil [of c xs] by (cases "split_chr c xs") auto
    with Cons.prems False have "p = x # q \<or> p \<in> set qs" by auto
    then show ?thesis
    proof
      assume "p = x # q"
      moreover have "c \<notin> set q" using Cons.IH [of q] q by simp
      ultimately show ?thesis using False by auto
    next
      assume "p \<in> set qs"
      then show ?thesis using Cons.IH [of p] q by simp
    qed
  qed
qed

lemma join_two: "join sep [a, b] = a @ sep @ b"
  by simp

lemma slice_last2_two:
  assumes "2 \<le> length xs"
  shows "slice_last2 xs = [xs ! (length xs - 2), last xs]"
proof -
  have len: "length (slice_last2 xs) = 2"
    using assms by (simp add: slice_last2_def)
  then obtain a b where ab: "slice_last2 xs = [a, b]"
    by (cases "slice_last2 xs"; cases "tl (slice_last2 xs)"; cases "tl (tl (slice_last2 xs))") auto
  have "a = slice_last2 xs ! 0" using ab by simp
  also have "\<dots> = xs ! (length xs - 2)"
    using assms by (simp add: slice_last2_def)
  finally have a: "a = xs ! (length xs - 2)" .
  have "b = slice_last2 xs ! 1" using ab by simp
  also have "\<dots> = xs ! (length xs - 2 + 1)"
    using assms unfolding slice_last2_def by (subst nth_drop) auto
  also have "\<dots> = last xs"
    using assms by (cases xs rule: rev_cases) (auto simp: nth_append)
  finally show ?thesis using ab a by simp
qed

lemma whoisServers_distinct: "distinct (map fst whoisServers)"
  by (simp add: whoisServers_def)

lemma whoisServers_values_nonempty: "map_of whoisServers k = Some v \<Longrightarrow> v \<noteq> []"
  by (drule map_of_SomeD) (auto simp: whoisServers_def)

text \<open>
  C7. For a non-empty domain with at least two labels (after lower-casing and splitting on
  the dot), \<open>getTLD\<close> returns exactly this key \<open>k\<close>: the pair of the last two labels
  joined by a dot when there are at least three labels and the pair is in the
  compound-suffix set, and the last label in every other case (so also for a domain of
  two labels that is itself a compound suffix). Hence \<open>k\<close> is the last label or a
  recognized compound suffix, the pair takes precedence where the rule admits it, and
  \<open>k\<close> is one of the labels before the last only if it is equal to the last label.
  Being a function of the domain alone, the result is deterministic.
\<close>

theorem getTLD_registry_key:
  fixes d :: string and parts :: "string list" and pair :: string
  assumes nonempty: "d \<noteq> []"
    and parts: "parts = split_chr CHR ''.'' (toLowerCase d)"
    and two: "2 \<le> length parts"
    and pair: "pair = parts ! (length parts - 2) @ ''.'' @ last parts"
  shows "\<exists>k. getTLD d = Inr k
           \<and> k = (if 3 \<le> length parts \<and> pair \<in> set commonSecondLevel
                    then pair else last parts)
           \<and> (k = last parts \<or> (k = pair \<and> pair \<in> set commonSecondLevel))
           \<and> (3 \<le> length parts \<and> pair \<in> set commonSecondLevel \<longrightarrow> k = pair)
           \<and> (k \<in> set (butlast parts) \<longrightarrow> k = last parts)"
proof -
  have sl: "join ''.'' (slice_last2 parts) = pair"
    using slice_last2_two [OF two] pair by simp
  show ?thesis
  proof (cases "3 \<le> length parts \<and> pair \<in> set commonSecondLevel")
    case True
    have "CHR ''.'' \<in> set pair" using pair by simp
    then have "pair \<notin> set parts"
      using split_chr_no_sep [of pair "CHR ''.''" "toLowerCase d"] parts by blast
    then have "pair \<notin> set (butlast parts)"
      by (meson in_set_butlastD)
    moreover have "getTLD d = Inr pair"
      using True nonempty two parts sl
      by (simp add: getTLD_def Let_def js_includes_def)
    ultimately show ?thesis using True by simp
  next
    case False
    have "getTLD d = Inr (last parts)"
      using False nonempty two parts sl
      by (auto simp add: getTLD_def Let_def js_includes_def)
    then show ?thesis using False by auto
  qed
qed

theorem getTLD_registry_key_witness:
  "getTLD ''WWW.Example.co.uk'' = Inr ''co.uk'' \<and> getTLD ''example.com'' = Inr ''com''
   \<and> getTLD ''co.uk'' = Inr ''uk''"
proof -
  have p: "[''www'', ''example'', ''co'', ''uk'']
             = split_chr CHR ''.'' (toLowerCase ''WWW.Example.co.uk'')"
    by code_simp
  have q: "[''example'', ''com''] = split_chr CHR ''.'' (toLowerCase ''example.com'')"
    by code_simp
  have r: "[''co'', ''uk''] = split_chr CHR ''.'' (toLowerCase ''co.uk'')"
    by code_simp
  from getTLD_registry_key [OF _ p _ refl] getTLD_registry_key [OF _ q _ refl]
    getTLD_registry_key [OF _ r _ refl]
  show ?thesis by (simp add: commonSecondLevel_def)
qed

text \<open>
  C8. When the registry key of a domain is not a key of the static WHOIS server table,
  \<open>getWhoisServer\<close> returns a server, it is not the empty string, and it is the default
  referral server \<^verbatim>\<open>whois.iana.org\<close>. The function consults the static table only.
\<close>

theorem getWhoisServer_default:
  assumes "getTLD d = Inr tld" and "map_of whoisServers tld = None"
  shows "\<exists>s. getWhoisServer d = Inr s \<and> s \<noteq> [] \<and> s = ''whois.iana.org''"
  using assms by (simp add: getWhoisServer_def)

theorem getWhoisServer_default_witness:
  "getWhoisServer ''example.museum'' = Inr ''whois.iana.org''"
proof -
  have t: "getTLD ''example.museum'' = Inr ''museum''" by code_simp
  have m: "map_of whoisServers ''museum'' = None" by (simp add: whoisServers_def)
  from getWhoisServer_default [OF t m] show ?thesis by simp
qed

section \<open>Properties of the orchestrator\<close>

lemma get_set_prop: "get (set_prop ob k v) k' = (if k' = k then v else get ob k')"
  by (simp add: get_def set_prop_def update_conv')

lemma get_set_if: "k' \<noteq> k \<Longrightarrow> get (set_if ob k v) k' = get ob k'"
  by (simp add: set_if_def get_set_prop)

lemma formatContact_ok: "e \<noteq> JNull \<Longrightarrow> e \<noteq> JUndefined \<Longrightarrow> \<exists>c. formatContact e = Inr c"
  by (cases e) (simp_all add: formatContact_def)

lemma map_throw_ok:
  "list_all (\<lambda>e. \<exists>c. f e = Inr c) es \<Longrightarrow> \<exists>cs. map_throw f es = Inr cs"
  by (induction es) auto

lemma js_map_formatContact_ok:
  assumes "list_all (\<lambda>e. e \<noteq> JNull \<and> e \<noteq> JUndefined) es"
  shows "\<exists>cs. js_map formatContact (JArr es) = Inr cs"
proof -
  have "list_all (\<lambda>e. \<exists>c. formatContact e = Inr c) es"
    using assms formatContact_ok by (induction es) auto
  from map_throw_ok [OF this] show ?thesis by auto
qed

lemma formatRdapResult_ok:
  assumes "entities_ok r"
  shows "\<exists>x. formatRdapResult r = Inr x"
proof (cases "nonempty (get r ''entities'')")
  case False
  then show ?thesis by (simp add: formatRdapResult_def Let_def)
next
  case True
  with assms obtain es where es: "get r ''entities'' = JArr es"
    "list_all (\<lambda>e. e \<noteq> JNull \<and> e \<noteq> JUndefined) es"
    by (cases "get r ''entities''") (auto simp: entities_ok_def)
  from js_map_formatContact_ok [OF es(2)] obtain cs
    where "js_map formatContact (JArr es) = Inr cs" by blast
  with es True show ?thesis by (simp add: formatRdapResult_def Let_def)
qed

lemma formatResult_found:
  assumes found: "truthy (get r ''found'')"
    and ok: "get r ''method'' = JStr ''rdap'' \<Longrightarrow> entities_ok r"
  shows "\<exists>out. formatResult now r raw = Inr out
           \<and> get out ''method'' = get r ''method''
           \<and> (truthy (get r ''fallback_used'') \<longrightarrow>
                get out ''fallback_used'' = get r ''fallback_used''
              \<and> get out ''primary_method_failed'' = get r ''primary_method_failed'')"
proof (cases "get r ''method'' = JStr ''rdap''")
  case True
  from formatRdapResult_ok [OF ok [OF True]] obtain x where "formatRdapResult r = Inr x" by blast
  with True found show ?thesis
    by (simp add: formatResult_def Let_def get_set_prop get_set_if) (simp add: get_def)
next
  case False
  with found show ?thesis
    by (simp add: formatResult_def Let_def get_set_prop get_set_if) (simp add: get_def)
qed

text \<open>
  C2. The domain parameter is present and not empty (otherwise \<open>execute\<close> throws before
  any client is called). If the primary client (WHOIS when \<open>prefer_whois\<close>, else RDAP)
  returns a record with \<^verbatim>\<open>found: false\<close> and the other client returns a record with
  \<^verbatim>\<open>found: true\<close> (whose entities, when it is the RDAP record, are as the RDAP client
  builds them), then \<open>execute\<close> returns an outcome with \<^verbatim>\<open>fallback_used: true\<close>,
  \<^verbatim>\<open>method\<close> the fallback protocol's name and \<^verbatim>\<open>primary_method_failed\<close> the primary
  protocol's name.
\<close>

theorem execute_fallback_found:
  assumes pd: "param_domain ps = Some d" "d \<noteq> []"
    and primary: "(if prefer_whois ps then whois else rdap) d = Inr r1"
    and r1: "get r1 ''found'' = JBool False"
    and fallback: "(if prefer_whois ps then rdap else whois) d = Inr r2"
    and r2: "get r2 ''found'' = JBool True"
    and ents: "prefer_whois ps \<Longrightarrow> entities_ok r2"
  shows "\<exists>out. execute rdap whois now ps = Inr out
           \<and> get out ''fallback_used'' = JBool True
           \<and> get out ''method'' = JStr (if prefer_whois ps then ''rdap'' else ''whois'')
           \<and> get out ''primary_method_failed''
               = JStr (if prefer_whois ps then ''whois'' else ''rdap'')"
proof -
  let ?pm = "if prefer_whois ps then ''whois'' else ''rdap''"
  let ?fm = "if prefer_whois ps then ''rdap'' else ''whois''"
  let ?res = "set_prop (set_prop (set_prop r2 ''method'' (JStr ?fm)) ''fallback_used'' (JBool True))
                ''primary_method_failed'' (JStr ?pm)"
  have p: "lookupWith rdap whois ?pm d = Inr (set_prop r1 ''method'' (JStr ?pm))"
    using primary by (auto simp: lookupWith_def split: if_splits)
  have f: "lookupWith rdap whois ?fm d = Inr (set_prop r2 ''method'' (JStr ?fm))"
    using fallback by (auto simp: lookupWith_def split: if_splits)
  have ex: "execute rdap whois now ps = formatResult now ?res (include_raw ps)"
    using pd p f r1 r2
    by (simp add: execute_def Let_def get_set_prop)
  have found: "truthy (get ?res ''found'')"
    using r2 by (simp add: get_set_prop)
  have ok: "get ?res ''method'' = JStr ''rdap'' \<Longrightarrow> entities_ok ?res"
    using ents by (auto simp: get_set_prop entities_ok_def split: if_splits)
  from formatResult_found [OF found ok, of now "include_raw ps"] ex
  show ?thesis by (auto simp: get_set_prop)
qed

theorem execute_fallback_found_witness:
  "(\<exists>out. execute
            (\<lambda>d. Inr [(''domain'', JStr ''example.com''), (''found'', JBool False),
                      (''status'', JStr ''not_found''),
                      (''message'', JStr ''Domain not found in registry'')])
            (\<lambda>d. Inr [(''domain'', JStr ''example.com''), (''found'', JBool True),
                      (''source'', JStr ''whois'')])
            ''2025-01-21T10:30:00.000Z'' (Params (Some ''example.com'') False False) = Inr out
      \<and> get out ''fallback_used'' = JBool True \<and> get out ''method'' = JStr ''whois''
      \<and> get out ''primary_method_failed'' = JStr ''rdap'')
   \<and> (\<exists>out. execute
            (\<lambda>d. Inr [(''domain'', JStr ''example.com''), (''found'', JBool True),
                      (''entities'', JArr [JObj [(''handle'', JStr ''H1'')]])])
            (\<lambda>d. Inr [(''domain'', JStr ''example.com''), (''found'', JBool False),
                      (''source'', JStr ''whois''), (''error'', JStr ''No WHOIS data available'')])
            ''2025-01-21T10:30:00.000Z'' (Params (Some ''example.com'') True False) = Inr out
      \<and> get out ''fallback_used'' = JBool True \<and> get out ''method'' = JStr ''rdap''
      \<and> get out ''primary_method_failed'' = JStr ''whois'')"
proof -
  let ?nf = "[(''domain'', JStr ''example.com''), (''found'', JBool False),
              (''status'', JStr ''not_found''),
              (''message'', JStr ''Domain not found in registry'')]"
  let ?wf = "[(''domain'', JStr ''example.com''), (''found'', JBool True),
              (''source'', JStr ''whois'')]"
  let ?rf = "[(''domain'', JStr ''example.com''), (''found'', JBool True),
              (''entities'', JArr [JObj [(''handle'', JStr ''H1'')]])]"
  let ?wn = "[(''domain'', JStr ''example.com''), (''found'', JBool False),
              (''source'', JStr ''whois''), (''error'', JStr ''No WHOIS data available'')]"
  have e: "entities_ok ?rf" by (simp add: entities_ok_def get_def)
  from execute_fallback_found
         [where ps = "Params (Some ''example.com'') False False" and d = "''example.com''"
            and rdap = "\<lambda>d. Inr ?nf" and whois = "\<lambda>d. Inr ?wf" and ?r1.0 = ?nf and ?r2.0 = ?wf
            and now = "''2025-01-21T10:30:00.000Z''"]
       execute_fallback_found
         [where ps = "Params (Some ''example.com'') True False" and d = "''example.com''"
            and rdap = "\<lambda>d. Inr ?rf" and whois = "\<lambda>d. Inr ?wn" and ?r1.0 = ?wn and ?r2.0 = ?rf
            and now = "''2025-01-21T10:30:00.000Z''"]
       e
  show ?thesis by (simp add: get_def)
qed

text \<open>
  C3. The domain parameter is present and not empty. If the RDAP client and the WHOIS
  client both throw (whichever is the primary one), \<open>execute\<close> throws one \<^verbatim>\<open>Error\<close>; its
  message is \<^verbatim>\<open>Both RDAP and WHOIS lookups failed. RDAP: <m1>, WHOIS: <m2>\<close> with the two
  clients' messages, so it contains both protocol names and both failure messages.
\<close>

theorem execute_both_fail:
  assumes pd: "param_domain ps = Some d" "d \<noteq> []"
    and rdap: "rdap d = Inl er"
    and whois: "whois d = Inl ew"
  shows "\<exists>msg. execute rdap whois now ps = Inl (Error msg)
           \<and> msg = ''Both RDAP and WHOIS lookups failed. RDAP: '' @ err_message er
                    @ '', WHOIS: '' @ err_message ew
           \<and> sublist ''RDAP'' msg \<and> sublist ''WHOIS'' msg
           \<and> sublist (err_message er) msg \<and> sublist (err_message ew) msg"
proof -
  let ?msg = "''Both RDAP and WHOIS lookups failed. RDAP: '' @ err_message er
                @ '', WHOIS: '' @ err_message ew"
  have ex: "execute rdap whois now ps = Inl (Error ?msg)"
    using pd rdap whois by (simp add: execute_def lookupWith_def Let_def)
  have a: "sublist ''RDAP'' ?msg"
    using sublist_appendI [of "''RDAP''" "''Both ''"
        "'' and WHOIS lookups failed. RDAP: '' @ err_message er @ '', WHOIS: '' @ err_message ew"]
    by simp
  have b: "sublist ''WHOIS'' ?msg"
    using sublist_appendI [of "''WHOIS''" "''Both RDAP and ''"
        "'' lookups failed. RDAP: '' @ err_message er @ '', WHOIS: '' @ err_message ew"]
    by simp
  have c: "sublist (err_message er) ?msg"
    using sublist_appendI [of "err_message er" "''Both RDAP and WHOIS lookups failed. RDAP: ''"
        "'', WHOIS: '' @ err_message ew"]
    by simp
  have e: "sublist (err_message ew) ?msg"
    using sublist_appendI [of "err_message ew"
        "''Both RDAP and WHOIS lookups failed. RDAP: '' @ err_message er @ '', WHOIS: ''" "[]"]
    by simp
  from ex a b c e show ?thesis by blast
qed

theorem execute_both_fail_witness:
  "execute (\<lambda>d. Inl (Error ''RDAP query failed: 500 Internal Server Error''))
           (\<lambda>d. Inl (Error ''WHOIS lookup failed: fetch failed''))
           ''2025-01-21T10:30:00.000Z'' (Params (Some ''example.com'') True False)
     = Inl (Error ''Both RDAP and WHOIS lookups failed. RDAP: RDAP query failed: 500 Internal Server Error, WHOIS: WHOIS lookup failed: fetch failed'')"
  using execute_both_fail
    [where ps = "Params (Some ''example.com'') True False" and d = "''example.com''"
       and rdap = "\<lambda>d. Inl (Error ''RDAP query failed: 500 Internal Server Error'')"
       and er = "Error ''RDAP query failed: 500 Internal Server Error''"
       and whois = "\<lambda>d. Inl (Error ''WHOIS lookup failed: fetch failed'')"
       and ew = "Error ''WHOIS lookup failed: fetch failed''"
       and now = "''2025-01-21T10:30:00.000Z''"]
  by (simp add: Error_def)

section \<open>Properties of the RDAP client\<close>

lemma show_nat_timeout: "show_nat rdap_timeout = ''10000''"
  by (simp add: digit_char_def rdap_timeout_def)

text \<open>
  C4. For a domain that passes the format test and whose RDAP server resolves to a
  non-empty URL, with \<open>q\<close> the query URL: a response with status 404 gives a record with
  \<^verbatim>\<open>found: false\<close> and no exception; a response whose status is outside 200-299 and is not
  404 throws an \<^verbatim>\<open>Error\<close> whose message is \<^verbatim>\<open>RDAP query failed: <status> <statusText>\<close>; a
  request rejected with a \<^verbatim>\<open>TimeoutError\<close> throws an \<^verbatim>\<open>Error\<close> with the message
  \<^verbatim>\<open>RDAP query timed out after 10000ms\<close>, while any other rejection is rethrown as it is.
\<close>

theorem rdap_lookupDomain_status:
  assumes valid: "valid_domain_format (trim (toLowerCase d))"
    and url: "getRdapUrl bootstrap (trim (toLowerCase d)) = Inr (Some url)" "url \<noteq> []"
    and q: "q = url @ ''domain/'' @ trim (toLowerCase d)"
  shows "(fetch q = Inr (Response 404 st body) \<longrightarrow>
            (\<exists>r. rdap_lookupDomain bootstrap fetch d = Inr r \<and> get r ''found'' = JBool False))
       \<and> (fetch q = Inr (Response n st body) \<and> \<not> (200 \<le> n \<and> n \<le> 299) \<and> n \<noteq> 404 \<longrightarrow>
            rdap_lookupDomain bootstrap fetch d
              = Inl (Error (''RDAP query failed: '' @ show_nat n @ '' '' @ st)))
       \<and> (fetch q = Inl e \<and> err_name e = ''TimeoutError'' \<longrightarrow>
            rdap_lookupDomain bootstrap fetch d
              = Inl (Error ''RDAP query timed out after 10000ms''))
       \<and> (fetch q = Inl e \<and> err_name e \<noteq> ''TimeoutError'' \<longrightarrow>
            rdap_lookupDomain bootstrap fetch d = Inl e)"
proof -
  have ne: "d \<noteq> []"
  proof
    assume "d = []"
    with valid show False
      by (simp add: valid_domain_format_def valid_label_def trim_def toLowerCase_def)
  qed
  have a: "fetch q = Inr (Response 404 st body) \<Longrightarrow>
            (\<exists>r. rdap_lookupDomain bootstrap fetch d = Inr r \<and> get r ''found'' = JBool False)"
    using ne valid url q
    by (simp add: rdap_lookupDomain_def Let_def catchTimeout_def resp_ok_def get_def)
  have b: "fetch q = Inr (Response n st body) \<Longrightarrow> \<not> (200 \<le> n \<and> n \<le> 299) \<Longrightarrow> n \<noteq> 404 \<Longrightarrow>
            rdap_lookupDomain bootstrap fetch d
              = Inl (Error (''RDAP query failed: '' @ show_nat n @ '' '' @ st))"
    using ne valid url q
    by (simp add: rdap_lookupDomain_def Let_def catchTimeout_def resp_ok_def Error_def)
  have c: "fetch q = Inl e \<Longrightarrow> err_name e = ''TimeoutError'' \<Longrightarrow>
            rdap_lookupDomain bootstrap fetch d
              = Inl (Error ''RDAP query timed out after 10000ms'')"
    using ne valid url q show_nat_timeout
    by (simp add: rdap_lookupDomain_def Let_def catchTimeout_def)
  have e: "fetch q = Inl e \<Longrightarrow> err_name e \<noteq> ''TimeoutError'' \<Longrightarrow>
            rdap_lookupDomain bootstrap fetch d = Inl e"
    using ne valid url q
    by (simp add: rdap_lookupDomain_def Let_def catchTimeout_def)
  from a b c e show ?thesis by blast
qed

theorem rdap_lookupDomain_status_witness:
  "(\<exists>r. rdap_lookupDomain no_bootstrap
          (\<lambda>u. Inr (Response 404 ''Not Found'' (Inr JNull))) ''Example.COM '' = Inr r
        \<and> get r ''found'' = JBool False)
   \<and> rdap_lookupDomain no_bootstrap
        (\<lambda>u. Inr (Response 503 ''Service Unavailable'' (Inr JNull))) ''Example.COM ''
     = Inl (Error ''RDAP query failed: 503 Service Unavailable'')
   \<and> rdap_lookupDomain no_bootstrap
        (\<lambda>u. Inl (JsError ''TimeoutError'' ''The operation was aborted due to timeout''))
        ''Example.COM ''
     = Inl (Error ''RDAP query timed out after 10000ms'')
   \<and> rdap_lookupDomain no_bootstrap
        (\<lambda>u. Inl (JsError ''TypeError'' ''fetch failed'')) ''Example.COM ''
     = Inl (JsError ''TypeError'' ''fetch failed'')"
proof -
  have v: "valid_domain_format (trim (toLowerCase ''Example.COM ''))" by code_simp
  have u: "getRdapUrl no_bootstrap (trim (toLowerCase ''Example.COM ''))
             = Inr (Some ''https://rdap.verisign.com/com/v1/'')" by code_simp
  have s: "show_nat 503 = ''503''" by (simp add: digit_char_def)
  have a: "\<exists>r. rdap_lookupDomain no_bootstrap
          (\<lambda>u. Inr (Response 404 ''Not Found'' (Inr JNull))) ''Example.COM '' = Inr r
        \<and> get r ''found'' = JBool False"
    using rdap_lookupDomain_status [OF v u _ refl,
         where fetch = "\<lambda>u. Inr (Response 404 ''Not Found'' (Inr JNull))"
           and st = "''Not Found''" and body = "Inr JNull"]
    by simp
  have b: "rdap_lookupDomain no_bootstrap
        (\<lambda>u. Inr (Response 503 ''Service Unavailable'' (Inr JNull))) ''Example.COM ''
     = Inl (Error ''RDAP query failed: 503 Service Unavailable'')"
    using rdap_lookupDomain_status [OF v u _ refl,
         where fetch = "\<lambda>u. Inr (Response 503 ''Service Unavailable'' (Inr JNull))"
           and st = "''Service Unavailable''" and body = "Inr JNull" and n = 503] s
    by simp
  have c: "rdap_lookupDomain no_bootstrap
        (\<lambda>u. Inl (JsError ''TimeoutError'' ''The operation was aborted due to timeout''))
        ''Example.COM ''
     = Inl (Error ''RDAP query timed out after 10000ms'')"
    using rdap_lookupDomain_status [OF v u _ refl,
         where fetch = "\<lambda>u. Inl (JsError ''TimeoutError'' ''The operation was aborted due to timeout'')"
           and e = "JsError ''TimeoutError'' ''The operation was aborted due to timeout''"]
    by simp
  have e: "rdap_lookupDomain no_bootstrap
        (\<lambda>u. Inl (JsError ''TypeError'' ''fetch failed'')) ''Example.COM ''
     = Inl (JsError ''TypeError'' ''fetch failed'')"
    using rdap_lookupDomain_status [OF v u _ refl,
         where fetch = "\<lambda>u. Inl (JsError ''TypeError'' ''fetch failed'')"
           and e = "JsError ''TypeError'' ''fetch failed''"]
    by simp
  from a b c e show ?thesis by blast
qed

lemma set_prop_twice: "set_prop (set_prop ob k a) k b = set_prop ob k b"
  by (simp add: set_prop_def)

lemma push_list:
  assumes "get ob k = JUndefined \<or> get ob k = JArr (arr_of (get ob k))"
  shows "push ob k v = Inr (set_prop ob k (JArr (arr_of (get ob k) @ [v])))"
  using assms
  by (cases "get ob k") (auto simp: push_def Let_def get_set_prop set_prop_twice)

lemma vcardLoop_snoc:
  "vcardLoop c (fs @ [f]) = (case vcardLoop c fs of Inl e \<Rightarrow> Inl e | Inr c' \<Rightarrow> vcardField c' f)"
  by (induction fs arbitrary: c) (auto split: sum.splits)

lemma vcardField_skip: "\<not> has_four f \<Longrightarrow> vcardField c f = Inr c"
  by (cases f rule: has_four.cases) (simp_all add: vcardField_def)

lemma vcardField_four:
  assumes ok: "lists_ok c"
  shows "vcardField c (JArr (JStr p # params # ty # v # rest)) =
     (let key = toLowerCase p in
      if key = ''fn'' then Inr (set_prop c ''name'' v)
      else if key = ''org'' then
         Inr (set_prop c ''organization''
               (case v of JArr [] \<Rightarrow> JUndefined | JArr (x # xs) \<Rightarrow> x | _ \<Rightarrow> v))
      else if key = ''email'' then
         Inr (set_prop c ''emails'' (JArr (arr_of (get c ''emails'') @ [v])))
      else if key = ''tel'' then
         Inr (set_prop c ''phones'' (JArr (arr_of (get c ''phones'')
                @ [JObj [(''type'', js_or (opt_prop params ''type'') (JStr ''voice'')),
                         (''value'', v)]])))
      else if key = ''adr'' then
         (if 7 \<le> length (arr_of v) then
            Inr (set_prop c ''addresses'' (JArr (arr_of (get c ''addresses'')
                @ [JObj [(''type'', js_or (opt_prop params ''type'') (JStr ''postal'')),
                         (''poBox'', arr_of v ! 0),
                         (''extendedAddress'', arr_of v ! 1),
                         (''streetAddress'', arr_of v ! 2),
                         (''locality'', arr_of v ! 3),
                         (''region'', arr_of v ! 4),
                         (''postalCode'', arr_of v ! 5),
                         (''country'', arr_of v ! 6)]])))
          else Inr (if truthy (get c ''addresses'') then c
                    else set_prop c ''addresses'' (JArr [])))
      else Inr c)"
proof -
  have e: "get c ''emails'' = JUndefined \<or> get c ''emails'' = JArr (arr_of (get c ''emails''))"
    and ph: "get c ''phones'' = JUndefined \<or> get c ''phones'' = JArr (arr_of (get c ''phones''))"
    and ad: "get c ''addresses'' = JUndefined
              \<or> get c ''addresses'' = JArr (arr_of (get c ''addresses''))"
    using ok by (simp_all add: lists_ok_def)
  let ?c1 = "if \<not> truthy (get c ''addresses'') then set_prop c ''addresses'' (JArr []) else c"
  have ad1: "get ?c1 ''addresses'' = JUndefined
              \<or> get ?c1 ''addresses'' = JArr (arr_of (get ?c1 ''addresses''))"
    using ad by (cases "get c ''addresses''") (auto simp: get_set_prop)
  have ad2: "arr_of (get ?c1 ''addresses'') = arr_of (get c ''addresses'')"
    using ad by (cases "get c ''addresses''") (auto simp: get_set_prop)
  have ad3: "set_prop ?c1 ''addresses'' x = set_prop c ''addresses'' x" for x
    by (simp add: set_prop_twice)
  show ?thesis
    unfolding vcardField_def Let_def
    using push_list [OF e] push_list [OF ph] push_list [OF ad1] ad2 ad3
    by (cases v) (auto simp: Let_def)
qed

lemma lists_ok_empty: "lists_ok []"
  by (simp add: lists_ok_def get_def)

lemma lists_ok_set_other:
  "lists_ok c \<Longrightarrow> k \<notin> {''emails'', ''phones'', ''addresses''} \<Longrightarrow> lists_ok (set_prop c k v)"
  by (auto simp add: lists_ok_def get_set_prop)

lemma lists_ok_set_arr: "lists_ok c \<Longrightarrow> lists_ok (set_prop c k (JArr xs))"
  by (simp add: lists_ok_def get_set_prop)

lemma vcardField_lists_ok:
  assumes ok: "lists_ok c" and step: "vcardField c f = Inr c'"
  shows "lists_ok c'"
proof (cases "has_four f")
  case False
  with step ok show ?thesis by (simp add: vcardField_skip)
next
  case True
  then obtain pr params ty v rest where f: "f = JArr (pr # params # ty # v # rest)"
    by (cases f rule: has_four.cases) auto
  from step f obtain p where p: "pr = JStr p"
    by (cases pr) (auto simp: vcardField_def)
  from step show ?thesis
    unfolding f p vcardField_four [OF ok] Let_def
    using ok
    by (auto simp: lists_ok_set_other lists_ok_set_arr split: if_splits)
qed

lemma vcardLoop_lists_ok:
  "lists_ok c \<Longrightarrow> vcardLoop c fs = Inr c' \<Longrightarrow> lists_ok c'"
proof (induction fs arbitrary: c)
  case Nil
  then show ?case by simp
next
  case (Cons f fs)
  then show ?case
    by (auto split: sum.splits dest: vcardField_lists_ok)
qed

lemma parseVCard_snoc:
  assumes "parseVCard (JArr ms) = Inr contact"
  shows "parseVCard (JArr (ms @ [m])) = vcardField contact m"
    and "lists_ok contact"
  using assms vcardLoop_lists_ok [OF lists_ok_empty, of ms contact]
  by (simp_all add: parseVCard_def vcardLoop_snoc)

text \<open>
  C5 (as amended). After the members \<open>ms\<close> have given \<open>contact\<close>, a further member
  that is not an array of at least four elements is skipped. A member
  \<^verbatim>\<open>[property, params, type, value, ...]\<close> with a string property is interpreted by the
  lower-cased property: \<^verbatim>\<open>fn\<close> sets the name to the value; \<^verbatim>\<open>org\<close> sets the organization
  to the value, or to its first element when it is an array; \<^verbatim>\<open>email\<close> appends the
  value to the emails; \<^verbatim>\<open>tel\<close> appends a phone with the value and the \<^verbatim>\<open>type\<close>
  parameter, \<^verbatim>\<open>voice\<close> by default; \<^verbatim>\<open>adr\<close> with an array value of at least seven
  elements appends an address with the \<^verbatim>\<open>type\<close> parameter (\<^verbatim>\<open>postal\<close> by default) and
  the first seven elements as PO box, extended address, street, locality, region, postal
  code and country; any other property leaves the contact unchanged.
\<close>

theorem parseVCard_member:
  assumes prev: "parseVCard (JArr ms) = Inr contact"
  shows "(\<not> has_four m \<longrightarrow> parseVCard (JArr (ms @ [m])) = Inr contact)
       \<and> (m = JArr (JStr p # params # ty # v # rest) \<longrightarrow>
            (toLowerCase p = ''fn'' \<longrightarrow>
               parseVCard (JArr (ms @ [m])) = Inr (set_prop contact ''name'' v))
          \<and> (toLowerCase p = ''org'' \<longrightarrow>
               parseVCard (JArr (ms @ [m]))
                 = Inr (set_prop contact ''organization''
                          (case v of JArr [] \<Rightarrow> JUndefined | JArr (x # xs) \<Rightarrow> x | _ \<Rightarrow> v)))
          \<and> (toLowerCase p = ''email'' \<longrightarrow>
               parseVCard (JArr (ms @ [m]))
                 = Inr (set_prop contact ''emails''
                          (JArr (arr_of (get contact ''emails'') @ [v]))))
          \<and> (toLowerCase p = ''tel'' \<longrightarrow>
               parseVCard (JArr (ms @ [m]))
                 = Inr (set_prop contact ''phones''
                          (JArr (arr_of (get contact ''phones'')
                             @ [JObj [(''type'', js_or (opt_prop params ''type'') (JStr ''voice'')),
                                      (''value'', v)]]))))
          \<and> (toLowerCase p = ''adr'' \<and> 7 \<le> length (arr_of v) \<longrightarrow>
               parseVCard (JArr (ms @ [m]))
                 = Inr (set_prop contact ''addresses''
                          (JArr (arr_of (get contact ''addresses'')
                             @ [JObj [(''type'', js_or (opt_prop params ''type'') (JStr ''postal'')),
                                      (''poBox'', arr_of v ! 0),
                                      (''extendedAddress'', arr_of v ! 1),
                                      (''streetAddress'', arr_of v ! 2),
                                      (''locality'', arr_of v ! 3),
                                      (''region'', arr_of v ! 4),
                                      (''postalCode'', arr_of v ! 5),
                                      (''country'', arr_of v ! 6)]]))))
          \<and> (toLowerCase p \<notin> {''fn'', ''org'', ''email'', ''tel'', ''adr''} \<longrightarrow>
               parseVCard (JArr (ms @ [m])) = Inr contact))"
proof -
  note s = parseVCard_snoc [OF prev]
  have skip: "\<not> has_four m \<Longrightarrow> parseVCard (JArr (ms @ [m])) = Inr contact"
    by (simp add: s(1) vcardField_skip)
  have four: "m = JArr (JStr p # params # ty # v # rest) \<Longrightarrow> ?thesis"
    using skip by (simp add: s(1) vcardField_four [OF s(2)] Let_def)
  show ?thesis
  proof (cases "m = JArr (JStr p # params # ty # v # rest)")
    case True
    then show ?thesis by (rule four)
  next
    case False
    with skip show ?thesis by simp
  qed
qed

text \<open>C5 as stated fails: a member that is a triple \<^verbatim>\<open>[property, params, value]\<close> is skipped,
  and the name is not set.\<close>

theorem parseVCard_triple_counterexample:
  "parseVCard (JArr [JArr [JStr ''fn'', JObj [], JStr ''John Doe'']]) = Inr []"
  by (simp add: parseVCard_def vcardField_def)

theorem parseVCard_member_witness:
  "parseVCard (JArr [JArr [JStr ''fn'', JObj [], JStr ''John Doe'']]) = Inr []
   \<and> parseVCard (JArr [JArr [JStr ''FN'', JObj [], JStr ''text'', JStr ''John Doe'']])
       = Inr [(''name'', JStr ''John Doe'')]
   \<and> parseVCard (JArr [JArr [JStr ''org'', JObj [], JStr ''text'',
                               JArr [JStr ''Example Inc'', JStr ''Sales'']]])
       = Inr [(''organization'', JStr ''Example Inc'')]
   \<and> parseVCard (JArr [JArr [JStr ''email'', JObj [], JStr ''text'', JStr ''a@example.com'']])
       = Inr [(''emails'', JArr [JStr ''a@example.com''])]
   \<and> parseVCard (JArr [JArr [JStr ''tel'', JNull, JStr ''uri'', JStr ''tel:+1.5555551234'']])
       = Inr [(''phones'', JArr [JObj [(''type'', JStr ''voice''),
                                        (''value'', JStr ''tel:+1.5555551234'')]])]
   \<and> parseVCard (JArr [JArr [JStr ''adr'', JObj [(''type'', JStr ''work'')], JStr ''text'',
                               JArr [JStr '''', JStr ''Suite 1'', JStr ''1 Main St'', JStr ''Town'',
                                     JStr ''CA'', JStr ''90000'', JStr ''US'']]])
       = Inr [(''addresses'', JArr [JObj [(''type'', JStr ''work''), (''poBox'', JStr ''''),
                 (''extendedAddress'', JStr ''Suite 1''), (''streetAddress'', JStr ''1 Main St''),
                 (''locality'', JStr ''Town''), (''region'', JStr ''CA''),
                 (''postalCode'', JStr ''90000''), (''country'', JStr ''US'')]])]
   \<and> parseVCard (JArr [JArr [JStr ''version'', JObj [], JStr ''text'', JStr ''4.0'']]) = Inr []"
proof -
  have prev: "parseVCard (JArr []) = Inr []"
    by (simp add: parseVCard_def)
  have l: "toLowerCase ''FN'' = ''fn''" "toLowerCase ''org'' = ''org''"
    "toLowerCase ''email'' = ''email''" "toLowerCase ''tel'' = ''tel''"
    "toLowerCase ''adr'' = ''adr''" "toLowerCase ''version'' = ''version''"
    by code_simp+
  have a: "parseVCard (JArr [JArr [JStr ''fn'', JObj [], JStr ''John Doe'']]) = Inr []"
    using parseVCard_member [OF prev,
        where m = "JArr [JStr ''fn'', JObj [], JStr ''John Doe'']"]
    by simp
  have b: "parseVCard (JArr [JArr [JStr ''FN'', JObj [], JStr ''text'', JStr ''John Doe'']])
       = Inr [(''name'', JStr ''John Doe'')]"
    using parseVCard_member [OF prev,
        where m = "JArr [JStr ''FN'', JObj [], JStr ''text'', JStr ''John Doe'']"
          and p = "''FN''" and params = "JObj []" and ty = "JStr ''text''"
          and v = "JStr ''John Doe''" and rest = "[]"] l
    by (simp add: set_prop_def)
  have c: "parseVCard (JArr [JArr [JStr ''org'', JObj [], JStr ''text'',
                               JArr [JStr ''Example Inc'', JStr ''Sales'']]])
       = Inr [(''organization'', JStr ''Example Inc'')]"
    using parseVCard_member [OF prev,
        where m = "JArr [JStr ''org'', JObj [], JStr ''text'',
                               JArr [JStr ''Example Inc'', JStr ''Sales'']]"
          and p = "''org''" and params = "JObj []" and ty = "JStr ''text''"
          and v = "JArr [JStr ''Example Inc'', JStr ''Sales'']" and rest = "[]"] l
    by (simp add: set_prop_def)
  have d: "parseVCard (JArr [JArr [JStr ''email'', JObj [], JStr ''text'', JStr ''a@example.com'']])
       = Inr [(''emails'', JArr [JStr ''a@example.com''])]"
    using parseVCard_member [OF prev,
        where m = "JArr [JStr ''email'', JObj [], JStr ''text'', JStr ''a@example.com'']"
          and p = "''email''" and params = "JObj []" and ty = "JStr ''text''"
          and v = "JStr ''a@example.com''" and rest = "[]"] l
    by (simp add: set_prop_def get_def)
  have e: "parseVCard (JArr [JArr [JStr ''tel'', JNull, JStr ''uri'', JStr ''tel:+1.5555551234'']])
       = Inr [(''phones'', JArr [JObj [(''type'', JStr ''voice''),
                                        (''value'', JStr ''tel:+1.5555551234'')]])]"
    using parseVCard_member [OF prev,
        where m = "JArr [JStr ''tel'', JNull, JStr ''uri'', JStr ''tel:+1.5555551234'']"
          and p = "''tel''" and params = "JNull" and ty = "JStr ''uri''"
          and v = "JStr ''tel:+1.5555551234''" and rest = "[]"] l
    by (simp add: set_prop_def get_def js_or_def)
  have f: "parseVCard (JArr [JArr [JStr ''adr'', JObj [(''type'', JStr ''work'')], JStr ''text'',
                               JArr [JStr '''', JStr ''Suite 1'', JStr ''1 Main St'', JStr ''Town'',
                                     JStr ''CA'', JStr ''90000'', JStr ''US'']]])
       = Inr [(''addresses'', JArr [JObj [(''type'', JStr ''work''), (''poBox'', JStr ''''),
                 (''extendedAddress'', JStr ''Suite 1''), (''streetAddress'', JStr ''1 Main St''),
                 (''locality'', JStr ''Town''), (''region'', JStr ''CA''),
                 (''postalCode'', JStr ''90000''), (''country'', JStr ''US'')]])]"
    using parseVCard_member [OF prev,
        where m = "JArr [JStr ''adr'', JObj [(''type'', JStr ''work'')], JStr ''text'',
                               JArr [JStr '''', JStr ''Suite 1'', JStr ''1 Main St'', JStr ''Town'',
                                     JStr ''CA'', JStr ''90000'', JStr ''US'']]"
          and p = "''adr''" and params = "JObj [(''type'', JStr ''work'')]" and ty = "JStr ''text''"
          and v = "JArr [JStr '''', JStr ''Suite 1'', JStr ''1 Main St'', JStr ''Town'',
                                     JStr ''CA'', JStr ''90000'', JStr ''US'']" and rest = "[]"] l
    by (simp add: set_prop_def get_def js_or_def)
  have g: "parseVCard (JArr [JArr [JStr ''version'', JObj [], JStr ''text'', JStr ''4.0'']]) = Inr []"
    using parseVCard_member [OF prev,
        where m = "JArr [JStr ''version'', JObj [], JStr ''text'', JStr ''4.0'']"
          and p = "''version''" and params = "JObj []" and ty = "JStr ''text''"
          and v = "JStr ''4.0''" and rest = "[]"] l
    by simp
  from a b c d e f g show ?thesis by blast
qed

section \<open>Properties of the WHOIS text parser\<close>






lemma parseDateLoop_result:
  "parseDateLoop impl s fs =
     (if (\<exists>f \<in> set fs. js_match f s \<noteq> None)
      then (case dateToISOString impl s of Some i \<Rightarrow> i | None \<Rightarrow> s) else s)"
  by (induction fs) (auto split: option.splits)

lemma upper_ascii_dash: "upper_ascii CHR ''-'' = CHR ''-''"
  by (simp add: upper_ascii_def)

lemma isoDateOnly_matches:
  assumes "isoDateOnly s = Some (y, m, d)"
  shows "js_match (dateFormats ! 0) s \<noteq> None"
proof -
  from assms have len: "length s = 10"
    and dg: "list_all is_digit (take 4 s)" "s ! 4 = CHR ''-''"
      "list_all is_digit (take 2 (drop 5 s))" "s ! 7 = CHR ''-''" "list_all is_digit (drop 8 s)"
    by (auto simp: isoDateOnly_def split: if_splits)
  from len obtain c0 c1 c2 c3 c4 c5 c6 c7 c8 c9
    where s: "s = [c0, c1, c2, c3, c4, c5, c6, c7, c8, c9]"
    by (auto simp: eval_nat_numeral length_Suc_conv)
  from dg have "match_at (dateFormats ! 0) s \<noteq> None"
    unfolding s
    by (simp add: dateFormats_def digits_def match_at_def eval_nat_numeral upper_ascii_dash)
  then show ?thesis
    unfolding s by (auto split: option.splits)
qed

text \<open>
  C9 (as amended). For a date string that is not empty: if one of the four formats
  matches in it and \<^verbatim>\<open>new Date\<close> accepts the string as a valid date, the result is that
  date's ISO string; if no format matches, or the date is invalid, the result is the
  string as it is. A calendar date written \<^verbatim>\<open>YYYY-MM-DD\<close> gives that date followed by
  \<^verbatim>\<open>T00:00:00.000Z\<close> on every engine. In particular the text \<^verbatim>\<open>Expiry date: 2025-08-13\<close>
  is parsed to \<^verbatim>\<open>dates.expires\<close> equal to \<^verbatim>\<open>2025-08-13T00:00:00.000Z\<close>.
\<close>

theorem parseDate_result:
  assumes "s \<noteq> []"
  shows "parseDate impl s =
           Some (if (\<exists>f \<in> set dateFormats. js_match f s \<noteq> None)
                 then (case dateToISOString impl s of Some i \<Rightarrow> i | None \<Rightarrow> s)
                 else s)
       \<and> (\<forall>y m d. isoDateOnly s = Some (y, m, d)
              \<and> 1 \<le> m \<and> m \<le> 12 \<and> 1 \<le> d \<and> d \<le> days_in_month y m \<longrightarrow>
            parseDate impl s = Some (s @ ''T00:00:00.000Z''))
       \<and> expires (dates (parseWhoisResponse impl ''Expiry date: 2025-08-13'' dn))
           = Some ''2025-08-13T00:00:00.000Z''"
proof -
  have a: "parseDate impl s =
           Some (if (\<exists>f \<in> set dateFormats. js_match f s \<noteq> None)
                 then (case dateToISOString impl s of Some i \<Rightarrow> i | None \<Rightarrow> s)
                 else s)"
    using assms by (simp add: parseDate_def parseDateLoop_result)
  have b: "parseDate impl s = Some (s @ ''T00:00:00.000Z'')"
    if iso: "isoDateOnly s = Some (y, m, d)"
      and ok: "1 \<le> m" "m \<le> 12" "1 \<le> d" "d \<le> days_in_month y m"
    for y m d
  proof -
    have "dateFormats ! 0 \<in> set dateFormats"
      by (simp add: dateFormats_def)
    with isoDateOnly_matches [OF iso]
    have ex: "\<exists>f \<in> set dateFormats. js_match f s \<noteq> None" by blast
    have "d \<le> 31" using ok(4) by (simp add: days_in_month_def split: if_splits)
    with iso ok have "dateToISOString impl s = Some (s @ ''T00:00:00.000Z'')"
      by (simp add: dateToISOString_def)
    with a ex show ?thesis by simp
  qed
  have c: "expires (dates (parseWhoisResponse impl ''Expiry date: 2025-08-13'' dn))
           = Some ''2025-08-13T00:00:00.000Z''"
    by code_simp
  from a b c show ?thesis by blast
qed

theorem parseDate_result_witness:
  "parseDate no_fallback ''2025-08-13'' = Some ''2025-08-13T00:00:00.000Z''
   \<and> parseDate no_fallback ''13-Aug-2025'' = Some ''13-Aug-2025''"
proof -
  have ne: "''2025-08-13'' \<noteq> []" "''13-Aug-2025'' \<noteq> []" by simp_all
  have i: "isoDateOnly ''2025-08-13'' = Some (2025, 8, 13)" by code_simp
  have dm: "(13::nat) \<le> days_in_month 2025 8" by code_simp
  have ar: "(1::nat) \<le> 8" "(8::nat) \<le> 12" "(1::nat) \<le> 13" by simp_all
  have n: "(\<exists>f \<in> set dateFormats. js_match f ''13-Aug-2025'' \<noteq> None) = False" by code_simp
  have a: "parseDate no_fallback ''2025-08-13'' = Some (''2025-08-13'' @ ''T00:00:00.000Z'')"
    using parseDate_result [OF ne(1), of no_fallback] i dm ar by blast
  have b: "parseDate no_fallback ''13-Aug-2025'' = Some ''13-Aug-2025''"
    using parseDate_result [OF ne(2), of no_fallback, THEN conjunct1]
    by (simp only: n if_False)
  from a b show ?thesis by simp
qed

text \<open>C9 as stated fails: \<^verbatim>\<open>0000-00-00\<close> matches the format \<^verbatim>\<open>YYYY-MM-DD\<close>, it is not a
  valid date, and the result is the string itself, not an ISO-8601 form.\<close>

theorem parseDate_invalid_counterexample:
  "js_match (dateFormats ! 0) ''0000-00-00'' = Some []
   \<and> parseDate no_fallback ''0000-00-00'' = Some ''0000-00-00''"
  by code_simp

section \<open>Properties of the enrichment pass\<close>

lemma enrichDates_frame:
  "domain (enrichDates r raw) = domain r"
  "found (enrichDates r raw) = found r"
  "source (enrichDates r raw) = source r"
  "rawData (enrichDates r raw) = rawData r"
  "registrar (enrichDates r raw) = registrar r"
  "registrant (enrichDates r raw) = registrant r"
  "adminContact (enrichDates r raw) = adminContact r"
  "techContact (enrichDates r raw) = techContact r"
  "billingContact (enrichDates r raw) = billingContact r"
  "nameservers (enrichDates r raw) = nameservers r"
  "status (enrichDates r raw) = status r"
  "dnssec (enrichDates r raw) = dnssec r"
  "whoisServer (enrichDates r raw) = whoisServer r"
  "additionalInfo (enrichDates r raw) = additionalInfo r"
  "error (enrichDates r raw) = error r"
  by (simp_all add: enrichDates_def Let_def split: option.splits prod.splits)

lemma enrichNameservers_frame:
  "domain (enrichNameservers r raw) = domain r"
  "found (enrichNameservers r raw) = found r"
  "source (enrichNameservers r raw) = source r"
  "rawData (enrichNameservers r raw) = rawData r"
  "registrar (enrichNameservers r raw) = registrar r"
  "registrant (enrichNameservers r raw) = registrant r"
  "adminContact (enrichNameservers r raw) = adminContact r"
  "techContact (enrichNameservers r raw) = techContact r"
  "billingContact (enrichNameservers r raw) = billingContact r"
  "status (enrichNameservers r raw) = status r"
  "dates (enrichNameservers r raw) = dates r"
  "dnssec (enrichNameservers r raw) = dnssec r"
  "whoisServer (enrichNameservers r raw) = whoisServer r"
  "additionalInfo (enrichNameservers r raw) = additionalInfo r"
  "error (enrichNameservers r raw) = error r"
  by (simp_all add: enrichNameservers_def Let_def split: option.splits prod.splits)

lemma enrichStatus_frame:
  "domain (enrichStatus r raw) = domain r"
  "found (enrichStatus r raw) = found r"
  "source (enrichStatus r raw) = source r"
  "rawData (enrichStatus r raw) = rawData r"
  "registrar (enrichStatus r raw) = registrar r"
  "registrant (enrichStatus r raw) = registrant r"
  "adminContact (enrichStatus r raw) = adminContact r"
  "techContact (enrichStatus r raw) = techContact r"
  "billingContact (enrichStatus r raw) = billingContact r"
  "nameservers (enrichStatus r raw) = nameservers r"
  "dates (enrichStatus r raw) = dates r"
  "dnssec (enrichStatus r raw) = dnssec r"
  "whoisServer (enrichStatus r raw) = whoisServer r"
  "additionalInfo (enrichStatus r raw) = additionalInfo r"
  "error (enrichStatus r raw) = error r"
  by (simp_all add: enrichStatus_def Let_def split: option.splits prod.splits)

lemma enrichRegistrar_frame:
  "domain (enrichRegistrar r raw) = domain r"
  "found (enrichRegistrar r raw) = found r"
  "source (enrichRegistrar r raw) = source r"
  "rawData (enrichRegistrar r raw) = rawData r"
  "registrant (enrichRegistrar r raw) = registrant r"
  "adminContact (enrichRegistrar r raw) = adminContact r"
  "techContact (enrichRegistrar r raw) = techContact r"
  "billingContact (enrichRegistrar r raw) = billingContact r"
  "nameservers (enrichRegistrar r raw) = nameservers r"
  "status (enrichRegistrar r raw) = status r"
  "dates (enrichRegistrar r raw) = dates r"
  "dnssec (enrichRegistrar r raw) = dnssec r"
  "whoisServer (enrichRegistrar r raw) = whoisServer r"
  "additionalInfo (enrichRegistrar r raw) = additionalInfo r"
  "error (enrichRegistrar r raw) = error r"
  by (simp_all add: enrichRegistrar_def Let_def split: option.splits prod.splits)

lemma enrichRegistrant_frame:
  "domain (enrichRegistrant r raw) = domain r"
  "found (enrichRegistrant r raw) = found r"
  "source (enrichRegistrant r raw) = source r"
  "rawData (enrichRegistrant r raw) = rawData r"
  "registrar (enrichRegistrant r raw) = registrar r"
  "adminContact (enrichRegistrant r raw) = adminContact r"
  "techContact (enrichRegistrant r raw) = techContact r"
  "billingContact (enrichRegistrant r raw) = billingContact r"
  "nameservers (enrichRegistrant r raw) = nameservers r"
  "status (enrichRegistrant r raw) = status r"
  "dates (enrichRegistrant r raw) = dates r"
  "dnssec (enrichRegistrant r raw) = dnssec r"
  "whoisServer (enrichRegistrant r raw) = whoisServer r"
  "additionalInfo (enrichRegistrant r raw) = additionalInfo r"
  "error (enrichRegistrant r raw) = error r"
  by (simp_all add: enrichRegistrant_def Let_def split: option.splits prod.splits)

lemma enrichWhoisServer_frame:
  "domain (enrichWhoisServer r raw) = domain r"
  "found (enrichWhoisServer r raw) = found r"
  "source (enrichWhoisServer r raw) = source r"
  "rawData (enrichWhoisServer r raw) = rawData r"
  "registrar (enrichWhoisServer r raw) = registrar r"
  "registrant (enrichWhoisServer r raw) = registrant r"
  "adminContact (enrichWhoisServer r raw) = adminContact r"
  "techContact (enrichWhoisServer r raw) = techContact r"
  "billingContact (enrichWhoisServer r raw) = billingContact r"
  "nameservers (enrichWhoisServer r raw) = nameservers r"
  "status (enrichWhoisServer r raw) = status r"
  "dates (enrichWhoisServer r raw) = dates r"
  "dnssec (enrichWhoisServer r raw) = dnssec r"
  "additionalInfo (enrichWhoisServer r raw) = additionalInfo r"
  "error (enrichWhoisServer r raw) = error r"
  by (simp_all add: enrichWhoisServer_def Let_def split: option.splits prod.splits)

lemma enrichAdditionalInfo_frame:
  "domain (enrichAdditionalInfo r raw) = domain r"
  "found (enrichAdditionalInfo r raw) = found r"
  "source (enrichAdditionalInfo r raw) = source r"
  "rawData (enrichAdditionalInfo r raw) = rawData r"
  "registrar (enrichAdditionalInfo r raw) = registrar r"
  "registrant (enrichAdditionalInfo r raw) = registrant r"
  "adminContact (enrichAdditionalInfo r raw) = adminContact r"
  "techContact (enrichAdditionalInfo r raw) = techContact r"
  "billingContact (enrichAdditionalInfo r raw) = billingContact r"
  "nameservers (enrichAdditionalInfo r raw) = nameservers r"
  "status (enrichAdditionalInfo r raw) = status r"
  "dates (enrichAdditionalInfo r raw) = dates r"
  "dnssec (enrichAdditionalInfo r raw) = dnssec r"
  "whoisServer (enrichAdditionalInfo r raw) = whoisServer r"
  "error (enrichAdditionalInfo r raw) = error r"
  by (simp_all add: enrichAdditionalInfo_def Let_def split: option.splits prod.splits)

lemmas enrich_frames =
  enrichDates_frame enrichNameservers_frame enrichStatus_frame enrichRegistrar_frame
  enrichRegistrant_frame enrichWhoisServer_frame enrichAdditionalInfo_frame

lemma enrich_dates:
  "dates (enrichFromRawData r raw) =
     \<lparr>created = enrichDate (created (dates r)) createdPatterns raw,
      expires = enrichDate (expires (dates r)) expiresPatterns raw,
      updated = enrichDate (updated (dates r)) updatedPatterns raw\<rparr>"
  by (simp add: enrichFromRawData_def enrich_frames) (simp add: enrichDates_def)

lemma enrich_nameservers:
  "nameservers (enrichFromRawData r raw) =
     (if nameservers r = []
      then (case nameserverLoop nameserverPatterns raw of None \<Rightarrow> [] | Some ns \<Rightarrow> ns)
      else nameservers r)"
  by (simp add: enrichFromRawData_def enrich_frames)
     (simp add: enrichNameservers_def enrich_frames split: option.splits)

lemma enrich_status:
  "status (enrichFromRawData r raw) =
     (case firstMatch statusPatterns raw of
        None \<Rightarrow> status r
      | Some m \<Rightarrow> if trim m \<in> set (status r) then status r else status r @ [trim m])"
  by (simp add: enrichFromRawData_def enrich_frames)
     (simp add: enrichStatus_def enrich_frames js_includes_def split: option.splits)

lemma enrich_registrar:
  "registrar (enrichFromRawData r raw) =
     (if falsy (registrar r)
      then (case firstMatch registrarPatterns raw of
              None \<Rightarrow> registrar r
            | Some m \<Rightarrow> Some (trim m))
      else registrar r)"
  by (simp add: enrichFromRawData_def enrich_frames)
     (simp add: enrichRegistrar_def enrich_frames split: option.splits)

lemma enrich_whoisServer:
  "whoisServer (enrichFromRawData r raw) =
     (if falsy (whoisServer r)
      then (case js_match whoisServerPattern raw of
              None \<Rightarrow> whoisServer r
            | Some m \<Rightarrow> Some (trim m))
      else whoisServer r)"
  by (simp add: enrichFromRawData_def enrich_frames)
     (simp add: enrichWhoisServer_def enrich_frames split: option.splits)

lemma enrich_registrant:
  "registrant (enrichFromRawData r raw) =
     (case registrantLoop registrantPatterns raw of
        None \<Rightarrow> registrant r
      | Some (isOrganization, m) \<Rightarrow>
          if falsy (name (ensureContact (registrant r)))
             \<and> falsy (organization (ensureContact (registrant r)))
          then Some (if isOrganization
                     then (ensureContact (registrant r))\<lparr>organization := Some (trim m)\<rparr>
                     else (ensureContact (registrant r))\<lparr>name := Some (trim m)\<rparr>)
          else Some (ensureContact (registrant r)))"
  by (simp add: enrichFromRawData_def enrich_frames)
     (simp add: enrichRegistrant_def enrich_frames Let_def split: option.splits prod.splits)

lemma enrich_additionalInfo:
  "additionalInfo (enrichFromRawData r raw) =
     (if js_match urlPattern raw = None \<and> js_match validationPattern raw = None then None
      else Some \<lparr>registrarUrl = js_match urlPattern raw,
                  dataValidation = map_option trim (js_match validationPattern raw)\<rparr>)"
  by (simp add: enrichFromRawData_def enrichAdditionalInfo_def Let_def)

lemma enrich_untouched:
  "domain (enrichFromRawData r raw) = domain r"
  "found (enrichFromRawData r raw) = found r"
  "source (enrichFromRawData r raw) = source r"
  "rawData (enrichFromRawData r raw) = rawData r"
  "adminContact (enrichFromRawData r raw) = adminContact r"
  "techContact (enrichFromRawData r raw) = techContact r"
  "billingContact (enrichFromRawData r raw) = billingContact r"
  "dnssec (enrichFromRawData r raw) = dnssec r"
  "error (enrichFromRawData r raw) = error r"
  by (simp_all add: enrichFromRawData_def enrich_frames)

lemma firstMatch_first_wins:
  "i < length ps \<Longrightarrow> js_match (ps ! i) raw = Some m
     \<Longrightarrow> (\<And>j. j < i \<Longrightarrow> js_match (ps ! j) raw = None)
     \<Longrightarrow> firstMatch (ps @ qs) raw = Some m"
proof (induction ps arbitrary: i)
  case Nil
  then show ?case by simp
next
  case (Cons p ps)
  show ?case
  proof (cases i)
    case 0
    with Cons.prems show ?thesis by simp
  next
    case (Suc k)
    have "js_match p raw = None" using Cons.prems(3) [of 0] Suc by simp
    moreover have "firstMatch (ps @ qs) raw = Some m"
    proof (rule Cons.IH [of k])
      show "k < length ps" using Cons.prems(1) Suc by simp
      show "js_match (ps ! k) raw = Some m" using Cons.prems(2) Suc by simp
      show "js_match (ps ! j) raw = None" if "j < k" for j
        using Cons.prems(3) [of "Suc j"] that Suc by simp
    qed
    ultimately show ?thesis by simp
  qed
qed

lemma firstMatch_None: "(firstMatch ps raw = None) = (\<forall>p \<in> set ps. js_match p raw = None)"
  by (induction ps) (auto split: option.splits)

lemma nameserverLoop_Some:
  "nameserverLoop ps raw = Some ns \<Longrightarrow>
     \<exists>p \<in> set ps. \<exists>block. js_match p raw = Some block \<and> ns = take 10 (nsCandidates block)
        \<and> ns \<noteq> []"
  by (induction ps) (auto simp: extractNameservers_def split: option.splits if_splits)

lemma firstToken_no_space: "c \<in> set (firstToken l) \<Longrightarrow> \<not> is_space c"
  unfolding firstToken_def by (induction l) (auto split: if_splits)

lemma nsCandidates_elem:
  assumes "ns \<in> set (nsCandidates block)"
  shows "CHR ''.'' \<in> set ns \<and> 3 < length ns
       \<and> (\<exists>line \<in> set (split_chr LF block). ns = firstToken (trim line))
       \<and> (\<forall>c \<in> set ns. \<not> is_space c)"
  using assms firstToken_no_space by (auto simp: nsCandidates_def)

text \<open>
  C6 (as amended). For every record and raw text, with \<open>e\<close> the enriched record:
  the created, expires and updated dates, the registrar and the WHOIS server are written
  only when they are empty, and then get the trimmed group of the first pattern of the
  field's list that matches; the nameservers are written only when the list is empty,
  from the first nameserver pattern whose block yields at least one hostname; the
  registrant's name or organization is written only when both are empty, from the first
  registrant pattern that matches; a field of these that is populated is left unchanged.
  The status is not guarded: the trimmed group of the first status pattern that matches
  is appended to the list unless the list contains it, also when the list is not empty.
  The additional information (registrar URL, data validation) is rebuilt from the raw
  text. Domain, found, source, raw data, admin, tech and billing contact, DNSSEC and
  error are unchanged. In a pattern list the first pattern that matches decides, whatever
  patterns follow it.
\<close>

theorem enrichFromRawData_fields:
  fixes r :: whois_record and raw :: string
  defines "e \<equiv> enrichFromRawData r raw"
  shows
    "(\<not> falsy (created (dates r)) \<longrightarrow> created (dates e) = created (dates r))
   \<and> (\<not> falsy (expires (dates r)) \<longrightarrow> expires (dates e) = expires (dates r))
   \<and> (\<not> falsy (updated (dates r)) \<longrightarrow> updated (dates e) = updated (dates r))
   \<and> (\<not> falsy (registrar r) \<longrightarrow> registrar e = registrar r)
   \<and> (\<not> falsy (whoisServer r) \<longrightarrow> whoisServer e = whoisServer r)
   \<and> (nameservers r \<noteq> [] \<longrightarrow> nameservers e = nameservers r)
   \<and> (\<forall>c. registrant r = Some c \<and> \<not> (falsy (name c) \<and> falsy (organization c)) \<longrightarrow>
          registrant e = registrant r)
   \<and> domain e = domain r \<and> found e = found r \<and> source e = source r
   \<and> rawData e = rawData r \<and> adminContact e = adminContact r
   \<and> techContact e = techContact r \<and> billingContact e = billingContact r
   \<and> dnssec e = dnssec r \<and> error e = error r
   \<and> (falsy (created (dates r)) \<longrightarrow>
        created (dates e) = (case firstMatch createdPatterns raw of
                               None \<Rightarrow> created (dates r) | Some m \<Rightarrow> Some (trim m)))
   \<and> (falsy (expires (dates r)) \<longrightarrow>
        expires (dates e) = (case firstMatch expiresPatterns raw of
                               None \<Rightarrow> expires (dates r) | Some m \<Rightarrow> Some (trim m)))
   \<and> (falsy (updated (dates r)) \<longrightarrow>
        updated (dates e) = (case firstMatch updatedPatterns raw of
                               None \<Rightarrow> updated (dates r) | Some m \<Rightarrow> Some (trim m)))
   \<and> (falsy (registrar r) \<longrightarrow>
        registrar e = (case firstMatch registrarPatterns raw of
                         None \<Rightarrow> registrar r | Some m \<Rightarrow> Some (trim m)))
   \<and> (falsy (whoisServer r) \<longrightarrow>
        whoisServer e = (case js_match whoisServerPattern raw of
                           None \<Rightarrow> whoisServer r | Some m \<Rightarrow> Some (trim m)))
   \<and> (nameservers r = [] \<longrightarrow>
        nameservers e = (case nameserverLoop nameserverPatterns raw of
                           None \<Rightarrow> [] | Some ns \<Rightarrow> ns))
   \<and> nameserverLoop nameserverPatterns raw =
        (let second = (case js_match (nameserverPatterns ! 1) raw of
                         None \<Rightarrow> None
                       | Some b \<Rightarrow> if extractNameservers b \<noteq> []
                                  then Some (extractNameservers b) else None)
         in case js_match (nameserverPatterns ! 0) raw of
              None \<Rightarrow> second
            | Some b \<Rightarrow> if extractNameservers b \<noteq> []
                       then Some (extractNameservers b) else second)
   \<and> status e = (case firstMatch statusPatterns raw of
                   None \<Rightarrow> status r
                 | Some m \<Rightarrow> if trim m \<in> set (status r) then status r
                            else status r @ [trim m])
   \<and> (falsy (name (ensureContact (registrant r)))
        \<and> falsy (organization (ensureContact (registrant r))) \<longrightarrow>
        registrant e =
          (case registrantLoop registrantPatterns raw of
             None \<Rightarrow> registrant r
           | Some (isOrganization, m) \<Rightarrow>
               Some (if isOrganization
                     then (ensureContact (registrant r))\<lparr>organization := Some (trim m)\<rparr>
                     else (ensureContact (registrant r))\<lparr>name := Some (trim m)\<rparr>)))
   \<and> registrantLoop registrantPatterns raw =
        (case firstMatch (map snd registrantPatterns) raw of
           None \<Rightarrow> None
         | Some m \<Rightarrow>
             Some (js_match (snd (registrantPatterns ! 0)) raw = None
                     \<and> js_match (snd (registrantPatterns ! 1)) raw \<noteq> None, m))
   \<and> additionalInfo e =
        (if js_match urlPattern raw = None \<and> js_match validationPattern raw = None then None
         else Some \<lparr>registrarUrl = js_match urlPattern raw,
                     dataValidation = map_option trim (js_match validationPattern raw)\<rparr>)
   \<and> (\<forall>ps qs i m. i < length ps \<and> js_match (ps ! i) raw = Some m
          \<and> (\<forall>j<i. js_match (ps ! j) raw = None) \<longrightarrow>
        firstMatch (ps @ qs) raw = Some m)"
  unfolding e_def
  apply (intro conjI)
  subgoal by (simp add: enrich_dates enrichDate_def)
  subgoal by (simp add: enrich_dates enrichDate_def)
  subgoal by (simp add: enrich_dates enrichDate_def)
  subgoal by (simp add: enrich_registrar)
  subgoal by (simp add: enrich_whoisServer)
  subgoal by (simp add: enrich_nameservers)
  subgoal by (auto simp add: enrich_registrant ensureContact_def split: option.splits)
  subgoal by (simp add: enrich_untouched)
  subgoal by (simp add: enrich_untouched)
  subgoal by (simp add: enrich_untouched)
  subgoal by (simp add: enrich_untouched)
  subgoal by (simp add: enrich_untouched)
  subgoal by (simp add: enrich_untouched)
  subgoal by (simp add: enrich_untouched)
  subgoal by (simp add: enrich_untouched)
  subgoal by (simp add: enrich_untouched)
  subgoal by (simp add: enrich_dates enrichDate_def)
  subgoal by (simp add: enrich_dates enrichDate_def)
  subgoal by (simp add: enrich_dates enrichDate_def)
  subgoal by (simp add: enrich_registrar)
  subgoal by (simp add: enrich_whoisServer)
  subgoal by (simp add: enrich_nameservers)
  subgoal by (simp add: nameserverPatterns_def Let_def split: option.splits)
  subgoal by (rule enrich_status)
  subgoal by (simp add: enrich_registrant split: option.splits prod.splits)
  subgoal by (simp add: registrantPatterns_def split: option.splits)
  subgoal by (rule enrich_additionalInfo)
  subgoal using firstMatch_first_wins by blast
  done

theorem enrichFromRawData_fields_witness:
  "(let e = enrichFromRawData
      ((initialRecord ''x'' ''example.com'')
         \<lparr>registrar := Some ''Old Registrar'',
          registrant := Some \<lparr>name = Some ''Jane'', organization = None, email = None\<rparr>,
          nameservers := [''ns.old.example''],
          dates := \<lparr>created = Some ''1990'', expires = Some ''1991'', updated = Some ''1992''\<rparr>,
          whoisServer := Some ''whois.old.example''\<rparr>)
      ''Created: 1999''
    in created (dates e) = Some ''1990'' \<and> expires (dates e) = Some ''1991''
       \<and> updated (dates e) = Some ''1992'' \<and> registrar e = Some ''Old Registrar''
       \<and> whoisServer e = Some ''whois.old.example'' \<and> nameservers e = [''ns.old.example'']
       \<and> registrant e = Some \<lparr>name = Some ''Jane'', organization = None, email = None\<rparr>)
   \<and> created (dates (enrichFromRawData (initialRecord ''x'' ''example.com'')
        (''Created: 2020'' @ [LF] @ ''Creation date: 1999''))) = Some ''1999''
   \<and> expires (dates (enrichFromRawData (initialRecord ''x'' ''example.com'')
        ''Expires: 2030'')) = Some ''2030''
   \<and> updated (dates (enrichFromRawData (initialRecord ''x'' ''example.com'')
        ''Last Changed: 2024'')) = Some ''2024''
   \<and> registrar (enrichFromRawData (initialRecord ''x'' ''example.com'')
        ''Registrar: R [tag]'') = Some ''R''
   \<and> whoisServer (enrichFromRawData (initialRecord ''x'' ''example.com'')
        ''Whois Server: w.example'') = Some ''w.example''
   \<and> nameservers (enrichFromRawData (initialRecord ''x'' ''example.com'')
        ''DNS: n1.io'') = [''n1.io'']
   \<and> registrant (enrichFromRawData (initialRecord ''x'' ''example.com'')
        ''Registrant Organization: Org'')
       = Some \<lparr>name = None, organization = Some ''Org'', email = None\<rparr>
   \<and> status (enrichFromRawData (initialRecord ''x'' ''example.com'') ''Status: ok'') = [''ok'']
   \<and> firstMatch statusPatterns ''Status: ok'' = Some ''ok''"
proof -
  let ?r0 = "initialRecord ''x'' ''example.com''"
  let ?rf = "(initialRecord ''x'' ''example.com'')
         \<lparr>registrar := Some ''Old Registrar'',
          registrant := Some \<lparr>name = Some ''Jane'', organization = None, email = None\<rparr>,
          nameservers := [''ns.old.example''],
          dates := \<lparr>created = Some ''1990'', expires = Some ''1991'', updated = Some ''1992''\<rparr>,
          whoisServer := Some ''whois.old.example''\<rparr>"
  let ?e = "enrichFromRawData ?rf ''Created: 1999''"
  have pf: "\<not> falsy (created (dates ?rf))" "\<not> falsy (expires (dates ?rf))"
    "\<not> falsy (updated (dates ?rf))" "\<not> falsy (registrar ?rf)"
    "\<not> falsy (whoisServer ?rf)" "nameservers ?rf \<noteq> []"
    by (simp_all add: falsy_def initialRecord_def)
  have pr: "registrant ?rf = Some \<lparr>name = Some ''Jane'', organization = None, email = None\<rparr>
      \<and> \<not> (falsy (name \<lparr>name = Some ''Jane'', organization = None, email = None\<rparr>)
            \<and> falsy (organization \<lparr>name = Some ''Jane'', organization = None, email = None\<rparr>))"
    by (simp add: falsy_def initialRecord_def)
  have a1: "created (dates ?e) = created (dates ?rf)"
    by (rule enrichFromRawData_fields [of ?rf "''Created: 1999''", THEN conjunct1, THEN mp, OF pf(1)])
  have a2: "expires (dates ?e) = expires (dates ?rf)"
    by (rule enrichFromRawData_fields [of ?rf "''Created: 1999''", THEN conjunct2, THEN conjunct1, THEN mp, OF pf(2)])
  have a3: "updated (dates ?e) = updated (dates ?rf)"
    by (rule enrichFromRawData_fields [of ?rf "''Created: 1999''", THEN conjunct2, THEN conjunct2, THEN conjunct1, THEN mp, OF pf(3)])
  have a4: "registrar ?e = registrar ?rf"
    by (rule enrichFromRawData_fields [of ?rf "''Created: 1999''", THEN conjunct2, THEN conjunct2, THEN conjunct2, THEN conjunct1, THEN mp, OF pf(4)])
  have a5: "whoisServer ?e = whoisServer ?rf"
    by (rule enrichFromRawData_fields [of ?rf "''Created: 1999''", THEN conjunct2, THEN conjunct2, THEN conjunct2, THEN conjunct2, THEN conjunct1, THEN mp, OF pf(5)])
  have a6: "nameservers ?e = nameservers ?rf"
    by (rule enrichFromRawData_fields [of ?rf "''Created: 1999''", THEN conjunct2, THEN conjunct2, THEN conjunct2, THEN conjunct2, THEN conjunct2, THEN conjunct1, THEN mp, OF pf(6)])
  have a7: "registrant ?e = registrant ?rf"
    by (rule enrichFromRawData_fields [of ?rf "''Created: 1999''", THEN conjunct2, THEN conjunct2, THEN conjunct2, THEN conjunct2, THEN conjunct2, THEN conjunct2, THEN conjunct1, THEN spec, THEN mp, OF pr])
  have a: "created (dates ?e) = Some ''1990''"
    using a1 by (simp add: initialRecord_def)
  have keep: "expires (dates ?e) = Some ''1991''" "updated (dates ?e) = Some ''1992''"
    "registrar ?e = Some ''Old Registrar''" "whoisServer ?e = Some ''whois.old.example''"
    "nameservers ?e = [''ns.old.example'']"
    "registrant ?e = Some \<lparr>name = Some ''Jane'', organization = None, email = None\<rparr>"
    using a2 a3 a4 a5 a6 a7 by (simp_all add: initialRecord_def)
  have p0: "falsy (created (dates ?r0))" "falsy (expires (dates ?r0))"
    "falsy (updated (dates ?r0))" "falsy (registrar ?r0)" "falsy (whoisServer ?r0)"
    "nameservers ?r0 = []"
    by (simp_all add: falsy_def initialRecord_def noDates_def)
  have p1: "falsy (name (ensureContact (registrant ?r0)))
      \<and> falsy (organization (ensureContact (registrant ?r0)))"
    by (simp add: falsy_def initialRecord_def ensureContact_def emptyContact_def)
  have ev1: "firstMatch createdPatterns (''Created: 2020'' @ [LF] @ ''Creation date: 1999'')
              = Some ''1999''" by code_simp
  have ev2: "firstMatch expiresPatterns ''Expires: 2030'' = Some ''2030''" by code_simp
  have ev3: "firstMatch updatedPatterns ''Last Changed: 2024'' = Some ''2024''" by code_simp
  have ev4: "firstMatch registrarPatterns ''Registrar: R [tag]'' = Some ''R ''" by code_simp
  have ev5: "js_match whoisServerPattern ''Whois Server: w.example'' = Some ''w.example''"
    by code_simp
  have ev6: "nameserverLoop nameserverPatterns ''DNS: n1.io'' = Some [''n1.io'']" by code_simp
  have ev7: "registrantLoop registrantPatterns ''Registrant Organization: Org''
               = Some (True, ''Org'')" by code_simp
  have ev8: "firstMatch statusPatterns ''Status: ok'' = Some ''ok''" by code_simp
  have tr: "trim ''1999'' = ''1999''" "trim ''2030'' = ''2030''" "trim ''2024'' = ''2024''"
    "trim ''R '' = ''R''" "trim ''w.example'' = ''w.example''" "trim ''Org'' = ''Org''"
    "trim ''ok'' = ''ok''"
    by code_simp+
  have b1: "created (dates (enrichFromRawData ?r0 (''Created: 2020'' @ [LF] @ ''Creation date: 1999''))) = Some ''1999''"
    using enrichFromRawData_fields [of ?r0 "''Created: 2020'' @ [LF] @ ''Creation date: 1999''", THEN conjunct2, THEN conjunct2, THEN conjunct2, THEN conjunct2, THEN conjunct2, THEN conjunct2, THEN conjunct2, THEN conjunct2, THEN conjunct2, THEN conjunct2, THEN conjunct2, THEN conjunct2, THEN conjunct2, THEN conjunct2, THEN conjunct2, THEN conjunct2, THEN conjunct1, THEN mp, OF p0(1)] ev1 tr by (simp)
  have b2: "expires (dates (enrichFromRawData ?r0 ''Expires: 2030'')) = Some ''2030''"
    using enrichFromRawData_fields [of ?r0 "''Expires: 2030''", THEN conjunct2, THEN conjunct2, THEN conjunct2, THEN conjunct2, THEN conjunct2, THEN conjunct2, THEN conjunct2, THEN conjunct2, THEN conjunct2, THEN conjunct2, THEN conjunct2, THEN conjunct2, THEN conjunct2, THEN conjunct2, THEN conjunct2, THEN conjunct2, THEN conjunct2, THEN conjunct1, THEN mp, OF p0(2)] ev2 tr by (simp)
  have b3: "updated (dates (enrichFromRawData ?r0 ''Last Changed: 2024'')) = Some ''2024''"
    using enrichFromRawData_fields [of ?r0 "''Last Changed: 2024''", THEN conjunct2, THEN conjunct2, THEN conjunct2, THEN conjunct2, THEN conjunct2, THEN conjunct2, THEN conjunct2, THEN conjunct2, THEN conjunct2, THEN conjunct2, THEN conjunct2, THEN conjunct2, THEN conjunct2, THEN conjunct2, THEN conjunct2, THEN conjunct2, THEN conjunct2, THEN conjunct2, THEN conjunct1, THEN mp, OF p0(3)] ev3 tr by (simp)
  have b4: "registrar (enrichFromRawData ?r0 ''Registrar: R [tag]'') = Some ''R''"
    using enrichFromRawData_fields [of ?r0 "''Registrar: R [tag]''", THEN conjunct2, THEN conjunct2, THEN conjunct2, THEN conjunct2, THEN conjunct2, THEN conjunct2, THEN conjunct2, THEN conjunct2, THEN conjunct2, THEN conjunct2, THEN conjunct2, THEN conjunct2, THEN conjunct2, THEN conjunct2, THEN conjunct2, THEN conjunct2, THEN conjunct2, THEN conjunct2, THEN conjunct2, THEN conjunct1, THEN mp, OF p0(4)] ev4 tr by (simp)
  have b5: "whoisServer (enrichFromRawData ?r0 ''Whois Server: w.example'') = Some ''w.example''"
    using enrichFromRawData_fields [of ?r0 "''Whois Server: w.example''", THEN conjunct2, THEN conjunct2, THEN conjunct2, THEN conjunct2, THEN conjunct2, THEN conjunct2, THEN conjunct2, THEN conjunct2, THEN conjunct2, THEN conjunct2, THEN conjunct2, THEN conjunct2, THEN conjunct2, THEN conjunct2, THEN conjunct2, THEN conjunct2, THEN conjunct2, THEN conjunct2, THEN conjunct2, THEN conjunct2, THEN conjunct1, THEN mp, OF p0(5)] ev5 tr by (simp)
  have b6: "nameservers (enrichFromRawData ?r0 ''DNS: n1.io'') = [''n1.io'']"
    using enrichFromRawData_fields [of ?r0 "''DNS: n1.io''", THEN conjunct2, THEN conjunct2, THEN conjunct2, THEN conjunct2, THEN conjunct2, THEN conjunct2, THEN conjunct2, THEN conjunct2, THEN conjunct2, THEN conjunct2, THEN conjunct2, THEN conjunct2, THEN conjunct2, THEN conjunct2, THEN conjunct2, THEN conjunct2, THEN conjunct2, THEN conjunct2, THEN conjunct2, THEN conjunct2, THEN conjunct2, THEN conjunct1, THEN mp, OF p0(6)] ev6 by (simp)
  have b7: "registrant (enrichFromRawData ?r0 ''Registrant Organization: Org'')
       = Some \<lparr>name = None, organization = Some ''Org'', email = None\<rparr>"
    using enrichFromRawData_fields [of ?r0 "''Registrant Organization: Org''", THEN conjunct2, THEN conjunct2, THEN conjunct2, THEN conjunct2, THEN conjunct2, THEN conjunct2, THEN conjunct2, THEN conjunct2, THEN conjunct2, THEN conjunct2, THEN conjunct2, THEN conjunct2, THEN conjunct2, THEN conjunct2, THEN conjunct2, THEN conjunct2, THEN conjunct2, THEN conjunct2, THEN conjunct2, THEN conjunct2, THEN conjunct2, THEN conjunct2, THEN conjunct2, THEN conjunct2, THEN conjunct1, THEN mp, OF p1] ev7 tr by (simp add: initialRecord_def ensureContact_def emptyContact_def)
  have b8: "status (enrichFromRawData ?r0 ''Status: ok'') = [''ok'']"
    using enrichFromRawData_fields [of ?r0 "''Status: ok''", THEN conjunct2, THEN conjunct2, THEN conjunct2, THEN conjunct2, THEN conjunct2, THEN conjunct2, THEN conjunct2, THEN conjunct2, THEN conjunct2, THEN conjunct2, THEN conjunct2, THEN conjunct2, THEN conjunct2, THEN conjunct2, THEN conjunct2, THEN conjunct2, THEN conjunct2, THEN conjunct2, THEN conjunct2, THEN conjunct2, THEN conjunct2, THEN conjunct2, THEN conjunct2, THEN conjunct1] ev8 tr by (simp add: initialRecord_def)
  have fm: "js_match (statusPatterns ! 0) ''Status: ok'' = None"
    "js_match (statusPatterns ! 1) ''Status: ok'' = Some ''ok''"
    by code_simp+
  have pc: "1 < length statusPatterns \<and> js_match (statusPatterns ! 1) ''Status: ok'' = Some ''ok''
      \<and> (\<forall>j<1. js_match (statusPatterns ! j) ''Status: ok'' = None)"
    using fm by (simp add: statusPatterns_def)
  have c: "firstMatch (statusPatterns @ []) ''Status: ok'' = Some ''ok''"
    by (rule enrichFromRawData_fields [of ?r0 "''Status: ok''", THEN conjunct2, THEN conjunct2, THEN conjunct2, THEN conjunct2, THEN conjunct2, THEN conjunct2, THEN conjunct2, THEN conjunct2, THEN conjunct2, THEN conjunct2, THEN conjunct2, THEN conjunct2, THEN conjunct2, THEN conjunct2, THEN conjunct2, THEN conjunct2, THEN conjunct2, THEN conjunct2, THEN conjunct2, THEN conjunct2, THEN conjunct2, THEN conjunct2, THEN conjunct2, THEN conjunct2, THEN conjunct2, THEN conjunct2, THEN conjunct2, THEN spec, THEN spec, THEN spec, THEN spec, THEN mp, OF pc])
  from a keep b1 b2 b3 b4 b5 b6 b7 b8 c show ?thesis by (simp add: Let_def)
qed

text \<open>C6 as stated fails: a status list that is already populated is written to.\<close>

theorem enrichFromRawData_status_counterexample:
  "status ((initialRecord ''Status: ok'' ''example.com'')\<lparr>status := [''active'']\<rparr>)
     = [''active'']
   \<and> status (enrichFromRawData
        ((initialRecord ''Status: ok'' ''example.com'')\<lparr>status := [''active'']\<rparr>)
        ''Status: ok'') = [''active'', ''ok'']"
proof -
  have m: "firstMatch statusPatterns ''Status: ok'' = Some ''ok''" by code_simp
  have t: "trim ''ok'' = ''ok''" by code_simp
  show ?thesis by (simp add: enrich_status m t initialRecord_def)
qed


text \<open>
  C10. When the record's nameserver list is empty, the enriched list has at most 10
  entries: it is empty, or it is the first 10 candidates of the block matched by one of
  the nameserver patterns, each the first token of a trimmed line of that block; and
  every entry contains a dot, is longer than 3 characters and contains no white space.
\<close>

theorem enrich_nameservers_limit:
  assumes empty: "nameservers r = []"
  shows "length (nameservers (enrichFromRawData r raw)) \<le> 10
       \<and> (nameservers (enrichFromRawData r raw) = []
            \<or> (\<exists>p \<in> set nameserverPatterns. \<exists>block.
                  js_match p raw = Some block
                  \<and> nameservers (enrichFromRawData r raw) = take 10 (nsCandidates block)
                  \<and> (\<forall>ns \<in> set (nameservers (enrichFromRawData r raw)).
                        \<exists>line \<in> set (split_chr LF block). ns = firstToken (trim line))))
       \<and> (\<forall>ns \<in> set (nameservers (enrichFromRawData r raw)).
             CHR ''.'' \<in> set ns \<and> 3 < length ns \<and> (\<forall>c \<in> set ns. \<not> is_space c))"
proof (cases "nameserverLoop nameserverPatterns raw")
  case None
  with empty show ?thesis by (simp add: enrich_nameservers)
next
  case (Some ns)
  with empty have res: "nameservers (enrichFromRawData r raw) = ns"
    by (simp add: enrich_nameservers)
  from nameserverLoop_Some [OF Some] obtain p block
    where p: "p \<in> set nameserverPatterns" "js_match p raw = Some block"
      and ns: "ns = take 10 (nsCandidates block)"
    by blast
  have len: "length ns \<le> 10" using ns by simp
  have el: "CHR ''.'' \<in> set x \<and> 3 < length x \<and> (\<forall>c \<in> set x. \<not> is_space c)
            \<and> (\<exists>line \<in> set (split_chr LF block). x = firstToken (trim line))"
    if "x \<in> set ns" for x
  proof -
    from that ns have "x \<in> set (nsCandidates block)" by (auto dest: in_set_takeD)
    from nsCandidates_elem [OF this] show ?thesis by blast
  qed
  have tok: "\<forall>x \<in> set ns. \<exists>line \<in> set (split_chr LF block). x = firstToken (trim line)"
    using el by blast
  have elp: "\<forall>x \<in> set ns. CHR ''.'' \<in> set x \<and> 3 < length x \<and> (\<forall>c \<in> set x. \<not> is_space c)"
    using el by blast
  have mid: "\<exists>p \<in> set nameserverPatterns. \<exists>block.
               js_match p raw = Some block \<and> ns = take 10 (nsCandidates block)
               \<and> (\<forall>x \<in> set ns. \<exists>line \<in> set (split_chr LF block). x = firstToken (trim line))"
    using p ns tok by blast
  show ?thesis unfolding res using len mid elp by blast
qed

theorem enrich_nameservers_limit_witness:
  "length (nameservers (enrichFromRawData (initialRecord ''x'' ''example.com'')
     (''Name servers:'' @ [LF] @ ''  n1.io  192.0.2.1'' @ [LF] @ ''  n2.io'' @ [LF]
      @ ''  n3.io'' @ [LF] @ ''  n4.io'' @ [LF] @ ''  n5.io'' @ [LF] @ ''  n6.io'' @ [LF]
      @ ''  n7.io'' @ [LF] @ ''  n8.io'' @ [LF] @ ''  n9.io'' @ [LF] @ ''  n10.io'' @ [LF]
      @ ''  n11.io'' @ [LF] @ ''  n12.io'' @ [LF] @ [LF] @ ''WHOIS lookup made at 12:00'')))
     \<le> 10
   \<and> nameservers (enrichFromRawData (initialRecord ''x'' ''example.com'')
     (''Name servers:'' @ [LF] @ ''  n1.io  192.0.2.1'' @ [LF] @ ''  n2.io'' @ [LF]
      @ ''  n3.io'' @ [LF] @ ''  n4.io'' @ [LF] @ ''  n5.io'' @ [LF] @ ''  n6.io'' @ [LF]
      @ ''  n7.io'' @ [LF] @ ''  n8.io'' @ [LF] @ ''  n9.io'' @ [LF] @ ''  n10.io'' @ [LF]
      @ ''  n11.io'' @ [LF] @ ''  n12.io'' @ [LF] @ [LF] @ ''WHOIS lookup made at 12:00''))
     = [''n1.io'', ''n2.io'', ''n3.io'', ''n4.io'', ''n5.io'', ''n6.io'', ''n7.io'', ''n8.io'',
        ''n9.io'', ''n10.io'']"
proof -
  let ?raw = "''Name servers:'' @ [LF] @ ''  n1.io  192.0.2.1'' @ [LF] @ ''  n2.io'' @ [LF]
      @ ''  n3.io'' @ [LF] @ ''  n4.io'' @ [LF] @ ''  n5.io'' @ [LF] @ ''  n6.io'' @ [LF]
      @ ''  n7.io'' @ [LF] @ ''  n8.io'' @ [LF] @ ''  n9.io'' @ [LF] @ ''  n10.io'' @ [LF]
      @ ''  n11.io'' @ [LF] @ ''  n12.io'' @ [LF] @ [LF] @ ''WHOIS lookup made at 12:00''"
  let ?res = "nameservers (enrichFromRawData (initialRecord ''x'' ''example.com'') ?raw)"
  have e: "nameservers (initialRecord ''x'' ''example.com'') = []"
    by (simp add: initialRecord_def)
  have v: "nameserverLoop nameserverPatterns ?raw
             = Some [''n1.io'', ''n2.io'', ''n3.io'', ''n4.io'', ''n5.io'', ''n6.io'', ''n7.io'',
                     ''n8.io'', ''n9.io'', ''n10.io'']"
    by code_simp
  have r: "?res = [''n1.io'', ''n2.io'', ''n3.io'', ''n4.io'', ''n5.io'', ''n6.io'', ''n7.io'',
                   ''n8.io'', ''n9.io'', ''n10.io'']"
    by (simp only: enrich_nameservers v e if_True option.case simp_thms)
  from enrich_nameservers_limit [OF e, of ?raw] have l: "length ?res \<le> 10"
    by blast
  from l r show ?thesis by (rule conjI)
qed

end
